theory Spec2Isabelle
  imports Complex_Main
begin

section \<open>Strings of the platform\<close>

text \<open>
  The functions of \<^verbatim>\<open>src/lib/ai.ts\<close> and \<^verbatim>\<open>src/app/actions/suggestCategory.ts\<close>
  work on JavaScript strings through \<^verbatim>\<open>trim\<close>, \<^verbatim>\<open>toLowerCase\<close>, \<^verbatim>\<open>includes\<close>,
  \<^verbatim>\<open>startsWith\<close> and two regular-expression replacements. A string is a \<^typ>\<open>string\<close>
  here: a list of 8-bit characters, read as the code units 0 to 255 (Latin-1). The
  white space of \<^verbatim>\<open>trim\<close> and of the regular expression class \<^verbatim>\<open>\s\<close> is the same set
  of code units; in this range it is TAB, LF, VT, FF, CR, SPACE and NBSP.
\<close>

definition isWhiteSpace :: "char \<Rightarrow> bool" where
  "isWhiteSpace c \<longleftrightarrow>
     c = CHR 0x09 \<or> c = CHR 0x0A \<or> c = CHR 0x0B \<or> c = CHR 0x0C \<or> c = CHR 0x0D \<or>
     c = CHR 0x20 \<or> c = CHR 0xA0"

definition trimStart :: "string \<Rightarrow> string" where
  "trimStart s = dropWhile isWhiteSpace s"

definition trimEnd :: "string \<Rightarrow> string" where
  "trimEnd s = rev (dropWhile isWhiteSpace (rev s))"

definition trim :: "string \<Rightarrow> string" where
  "trim s = trimEnd (trimStart s)"

text \<open>
  \<^verbatim>\<open>toLowerCase\<close> on the code units 0 to 255: the letters A to Z and the Latin-1
  capitals 0xC0 to 0xDE (without the multiplication sign 0xD7) move up by 32, every
  other unit stays.
\<close>

definition lowerChar :: "char \<Rightarrow> char" where
  "lowerChar c =
     (let n = (of_char c :: nat)
      in if (65 \<le> n \<and> n \<le> 90) \<or> (192 \<le> n \<and> n \<le> 222 \<and> n \<noteq> 215)
         then char_of (n + 32) else c)"

definition toLowerCase :: "string \<Rightarrow> string" where
  "toLowerCase s = map lowerChar s"

text \<open>\<^verbatim>\<open>s.startsWith(p)\<close> and \<^verbatim>\<open>s.includes(k)\<close>, the receiver first.\<close>

fun startsWith :: "string \<Rightarrow> string \<Rightarrow> bool" where
  "startsWith s [] = True"
| "startsWith [] (p # ps) = False"
| "startsWith (c # cs) (p # ps) = (c = p \<and> startsWith cs ps)"

fun "includes" :: "string \<Rightarrow> string \<Rightarrow> bool" where
  "includes [] k = (k = [])"
| "includes (c # cs) k = (startsWith (c # cs) k \<or> includes cs k)"

text \<open>\<^verbatim>\<open>keywords.some(keyword => desc.includes(keyword))\<close>\<close>

definition some :: "string list \<Rightarrow> (string \<Rightarrow> bool) \<Rightarrow> bool" where
  "some xs p = list_ex p xs"

section \<open>The keyword classifier\<close>

definition foodKeywords :: "string list" where
  "foodKeywords =
    [''restaurant'', ''food'', ''coffee'', ''lunch'', ''dinner'', ''breakfast'', ''cafe'', ''pizza'',
     ''burger'', ''sandwich'', ''grocery'', ''supermarket'', ''market'', ''bakery'', ''bar'', ''pub'',
     ''drink'', ''beer'', ''wine'', ''snack'', ''meal'', ''eat'', ''dining'', ''takeout'', ''delivery'',
     ''mcdonalds'', ''starbucks'', ''subway'', ''kfc'', ''dominos'', ''uber eats'', ''doordash'',
     ''grubhub'', ''postmates'', ''foodpanda'', ''zomato'', ''swiggy'']"

definition transportKeywords :: "string list" where
  "transportKeywords =
    [''gas'', ''fuel'', ''petrol'', ''diesel'', ''uber'', ''lyft'', ''taxi'', ''bus'', ''train'', ''metro'',
     ''parking'', ''toll'', ''car'', ''vehicle'', ''transport'', ''flight'', ''airline'', ''plane'',
     ''airport'', ''rental'', ''maintenance'', ''repair'', ''oil change'', ''tire'', ''insurance'',
     ''registration'', ''license'', ''subway'', ''public transport'', ''ride share'', ''carpool'']"

definition entertainmentKeywords :: "string list" where
  "entertainmentKeywords =
    [''movie'', ''cinema'', ''theater'', ''concert'', ''music'', ''game'', ''gaming'', ''netflix'',
     ''spotify'', ''youtube'', ''entertainment'', ''fun'', ''party'', ''club'', ''event'', ''ticket'',
     ''show'', ''performance'', ''festival'', ''amusement'', ''park'', ''zoo'', ''museum'', ''gallery'',
     ''bowling'', ''pool'', ''arcade'', ''subscription'', ''streaming'', ''hulu'', ''disney'', ''prime'']"

definition shoppingKeywords :: "string list" where
  "shoppingKeywords =
    [''amazon'', ''ebay'', ''shop'', ''store'', ''mall'', ''clothing'', ''clothes'', ''shoes'', ''dress'',
     ''shirt'', ''pants'', ''jacket'', ''electronics'', ''phone'', ''laptop'', ''computer'', ''gadget'',
     ''book'', ''furniture'', ''home'', ''decor'', ''gift'', ''present'', ''online'', ''purchase'',
     ''buy'', ''walmart'', ''target'', ''costco'', ''nike'', ''adidas'', ''apple'', ''samsung'', ''sony'']"

definition billsKeywords :: "string list" where
  "billsKeywords =
    [''electric'', ''electricity'', ''power'', ''water'', ''gas bill'', ''internet'', ''wifi'',
     ''phone bill'', ''mobile'', ''cable'', ''tv'', ''utility'', ''utilities'', ''rent'', ''mortgage'',
     ''insurance'', ''loan'', ''payment'', ''subscription'', ''service'', ''maintenance'', ''repair'',
     ''bank'', ''fee'', ''charge'', ''bill'', ''invoice'', ''statement'', ''credit card'']"

definition healthcareKeywords :: "string list" where
  "healthcareKeywords =
    [''doctor'', ''hospital'', ''medical'', ''medicine'', ''pharmacy'', ''drug'', ''prescription'',
     ''health'', ''dental'', ''dentist'', ''clinic'', ''appointment'', ''checkup'', ''surgery'',
     ''treatment'', ''therapy'', ''insurance'', ''copay'', ''deductible'', ''medication'', ''pills'',
     ''vitamins'', ''supplements'', ''nurse'', ''specialist'', ''emergency'', ''urgent care'']"

definition categorizeExpenseLocally :: "string \<Rightarrow> string" where
  "categorizeExpenseLocally description =
     (let desc = trim (toLowerCase description)
      in if some foodKeywords (\<lambda>keyword. includes desc keyword) then ''Food''
         else if some transportKeywords (\<lambda>keyword. includes desc keyword) then ''Transportation''
         else if some entertainmentKeywords (\<lambda>keyword. includes desc keyword) then ''Entertainment''
         else if some shoppingKeywords (\<lambda>keyword. includes desc keyword) then ''Shopping''
         else if some billsKeywords (\<lambda>keyword. includes desc keyword) then ''Bills''
         else if some healthcareKeywords (\<lambda>keyword. includes desc keyword) then ''Healthcare''
         else ''Other'')"

section \<open>Values, exceptions and the remote service\<close>

text \<open>
  The type annotations of the source are erased when it runs: what \<^verbatim>\<open>JSON.parse\<close>
  returns and what a \<^verbatim>\<open>catch\<close> block receives is any JavaScript value. Numbers are
  rationals here; the only numbers the functions compare or produce are the
  constants 0, 429, 0.5, 0.7 and 0.8. An object is the list of its properties, one
  entry for each key.
\<close>

datatype jsval =
    JUndefined
  | JNull
  | JBool bool
  | JNumber rat
  | JString string
  | JArray "jsval list"
  | JObject "(string \<times> jsval) list"

text \<open>What \<^verbatim>\<open>!v\<close>, \<^verbatim>\<open>v || d\<close> and \<^verbatim>\<open>if (v)\<close> test.\<close>

fun truthy :: "jsval \<Rightarrow> bool" where
  "truthy JUndefined = False"
| "truthy JNull = False"
| "truthy (JBool b) = b"
| "truthy (JNumber n) = (n \<noteq> 0)"
| "truthy (JString s) = (s \<noteq> [])"
| "truthy (JArray xs) = True"
| "truthy (JObject kvs) = True"

definition or_else :: "jsval \<Rightarrow> jsval \<Rightarrow> jsval" where
  "or_else v d = (if truthy v then v else d)"

definition nullish :: "jsval \<Rightarrow> bool" where
  "nullish v \<longleftrightarrow> v = JUndefined \<or> v = JNull"

text \<open>
  \<^verbatim>\<open>v.key\<close> on a value that is neither \<^verbatim>\<open>null\<close> nor \<^verbatim>\<open>undefined\<close>, for the
  keys the source reads (\<^verbatim>\<open>type\<close>, \<^verbatim>\<open>title\<close>, \<^verbatim>\<open>message\<close>, \<^verbatim>\<open>action\<close>,
  \<^verbatim>\<open>confidence\<close>, \<^verbatim>\<open>status\<close>, \<^verbatim>\<open>code\<close>): none of them is a property of a
  number, a string, a boolean or an array.
\<close>

fun property :: "jsval \<Rightarrow> string \<Rightarrow> jsval" where
  "property (JObject kvs) key = (case map_of kvs key of None \<Rightarrow> JUndefined | Some v \<Rightarrow> v)"
| "property v key = JUndefined"

text \<open>The exceptions raised by the platform and by \<^verbatim>\<open>throw new Error(...)\<close>.\<close>

definition TypeError :: jsval where
  "TypeError = JObject [(''name'', JString ''TypeError'')]"

definition SyntaxError :: jsval where
  "SyntaxError = JObject [(''name'', JString ''SyntaxError'')]"

definition Error :: "string \<Rightarrow> jsval" where
  "Error msg = JObject [(''name'', JString ''Error''), (''message'', JString msg)]"

text \<open>\<^verbatim>\<open>error?.key\<close>\<close>

definition optional_property :: "jsval \<Rightarrow> string \<Rightarrow> jsval" where
  "optional_property v key = (if nullish v then JUndefined else property v key)"

text \<open>
  \<^verbatim>\<open>error?.status === 429 || error?.code === 429\<close>, the test of every \<^verbatim>\<open>catch\<close> block
  of the two files.
\<close>

definition isRateLimit :: "jsval \<Rightarrow> bool" where
  "isRateLimit error \<longleftrightarrow>
     optional_property error ''status'' = JNumber 429 \<or> optional_property error ''code'' = JNumber 429"

text \<open>
  \<^verbatim>\<open>try { ... } catch (error) { ... }\<close>: a block that throws is \<open>Inl\<close> of the thrown
  value, a block that returns is \<open>Inr\<close> of the result. The \<^verbatim>\<open>catch\<close> blocks of the
  source first write to the console (\<^verbatim>\<open>console.error\<close>, \<^verbatim>\<open>console.log\<close>); that
  output has no part in what the functions return and is left out.
\<close>

definition try_catch :: "jsval + 'a \<Rightarrow> (jsval \<Rightarrow> jsval + 'a) \<Rightarrow> jsval + 'a" where
  "try_catch body handler = (case body of Inl error \<Rightarrow> handler error | Inr v \<Rightarrow> Inr v)"

record ExpenseRecord =
  expense_id :: string
  expense_amount :: rat
  expense_category :: string
  expense_description :: string
  expense_date :: string

text \<open>
  \<^verbatim>\<open>expenses.map((expense) => ({amount, category, description, date}))\<close>, the
  projection that the prompts embed.
\<close>

definition expensesSummary :: "ExpenseRecord list \<Rightarrow> (rat \<times> string \<times> string \<times> string) list" where
  "expensesSummary expenses =
     map (\<lambda>expense. (expense_amount expense, expense_category expense,
                      expense_description expense, expense_date expense)) expenses"

text \<open>
  \<^verbatim>\<open>await openai.chat.completions.create(...)\<close> is a call to a remote service. The
  model takes the service as a function from the data a prompt is built from (the
  prompt text around it, the model name, the temperature and the token budget are
  constants of the source) to the outcome of the call: the promise is rejected with a
  thrown value, or resolved with a completion, of which the model keeps
  \<^verbatim>\<open>choices[i].message.content\<close> for every choice (\<open>None\<close> for \<^verbatim>\<open>null\<close>).
\<close>

datatype request =
    InsightsRequest "(rat \<times> string \<times> string \<times> string) list"
  | CategorizeRequest string
  | AnswerRequest string "(rat \<times> string \<times> string \<times> string) list"

datatype outcome =
    Rejected jsval
  | Resolved "string option list"

type_synonym service = "request \<Rightarrow> outcome"

text \<open>
  \<^verbatim>\<open>completion.choices[0].message.content\<close>: with no first choice the read of
  \<^verbatim>\<open>.message\<close> throws a TypeError.
\<close>

definition first_content :: "string option list \<Rightarrow> jsval + string option" where
  "first_content choices = (case choices of [] \<Rightarrow> Inl TypeError | content # _ \<Rightarrow> Inr content)"

text \<open>\<^verbatim>\<open>await create(...)\<close> followed by \<^verbatim>\<open>completion.choices[0].message.content\<close>\<close>

definition await_content :: "outcome \<Rightarrow> jsval + string option" where
  "await_content r = (case r of Rejected error \<Rightarrow> Inl error | Resolved choices \<Rightarrow> first_content choices)"

section \<open>generateExpenseInsights\<close>

record AIInsight =
  insight_id :: string
  insight_type :: jsval
  insight_title :: jsval
  insight_message :: jsval
  insight_action :: jsval
  insight_confidence :: jsval

text \<open>\<^verbatim>\<open>s.replace(/^```json\s*/, '')\<close> and \<^verbatim>\<open>s.replace(/^```\s*/, '')\<close>, the fence given.\<close>

definition replace_opening :: "string \<Rightarrow> string \<Rightarrow> string" where
  "replace_opening fence s =
     (if startsWith s fence then dropWhile isWhiteSpace (drop (length fence) s) else s)"

text \<open>
  \<^verbatim>\<open>s.replace(/\s*```$/, '')\<close>: the leftmost match is the longest run of white space
  before a fence that ends the string.
\<close>

definition replace_closing :: "string \<Rightarrow> string" where
  "replace_closing s =
     (if startsWith (rev s) (rev ''```'') then trimEnd (take (length s - 3) s) else s)"

definition cleanedResponse :: "string \<Rightarrow> string" where
  "cleanedResponse response =
     (let cleaned = trim response
      in if startsWith cleaned ''```json'' then replace_closing (replace_opening ''```json'' cleaned)
         else if startsWith cleaned ''```'' then replace_closing (replace_opening ''```'' cleaned)
         else cleaned)"

text \<open>The decimal digits of a number in a template literal.\<close>

definition digit :: "nat \<Rightarrow> char" where
  "digit d = ''0123456789'' ! d"

fun decimal :: "nat \<Rightarrow> string" where
  "decimal n = (if n < 10 then [digit n] else decimal (n div 10) @ [digit (n mod 10)])"

declare decimal.simps [simp del]

definition toString :: "int \<Rightarrow> string" where
  "toString i = (if i < 0 then ''-'' @ decimal (nat (- i)) else decimal (nat i))"

text \<open>
  The callback of \<^verbatim>\<open>insights.map\<close>. \<open>now\<close> is what \<^verbatim>\<open>Date.now()\<close> returns in this
  call of the callback. The first property read throws on \<^verbatim>\<open>null\<close>.
\<close>

definition formatInsight :: "int \<Rightarrow> nat \<Rightarrow> jsval \<Rightarrow> jsval + AIInsight" where
  "formatInsight now index insight =
     (if nullish insight then Inl TypeError
      else Inr \<lparr> insight_id = ''ai-'' @ toString now @ ''-'' @ decimal index,
                 insight_type = or_else (property insight ''type'') (JString ''info''),
                 insight_title = or_else (property insight ''title'') (JString ''AI Insight''),
                 insight_message = or_else (property insight ''message'') (JString ''Analysis complete''),
                 insight_action = property insight ''action'',
                 insight_confidence = or_else (property insight ''confidence'') (JNumber 0.8) \<rparr>)"

text \<open>
  \<^verbatim>\<open>insights.map(callback)\<close> on the elements from \<open>index\<close> on: the first callback that
  throws ends the loop. \<open>Date_now i\<close> is the clock read while element \<open>i\<close> is formatted.
\<close>

fun formatInsights :: "(nat \<Rightarrow> int) \<Rightarrow> nat \<Rightarrow> jsval list \<Rightarrow> jsval + AIInsight list" where
  "formatInsights Date_now index [] = Inr []"
| "formatInsights Date_now index (insight # rest) =
     (case formatInsight (Date_now index) index insight of
        Inl error \<Rightarrow> Inl error
      | Inr formatted \<Rightarrow>
          (case formatInsights Date_now (Suc index) rest of
             Inl error \<Rightarrow> Inl error
           | Inr others \<Rightarrow> Inr (formatted # others)))"

text \<open>
  \<^verbatim>\<open>JSON.parse(cleanedResponse)\<close> followed by \<^verbatim>\<open>insights.map(...)\<close>. \<open>JSON_parse\<close> is
  the platform's parser, \<open>None\<close> where it throws a SyntaxError. A parsed value that is
  not an array has no callable \<^verbatim>\<open>map\<close>.
\<close>

definition parseInsights :: "(string \<Rightarrow> jsval option) \<Rightarrow> (nat \<Rightarrow> int) \<Rightarrow> string \<Rightarrow> jsval + AIInsight list" where
  "parseInsights JSON_parse Date_now cleaned =
     (case JSON_parse cleaned of
        None \<Rightarrow> Inl SyntaxError
      | Some insights \<Rightarrow>
          (case insights of
             JArray elements \<Rightarrow> formatInsights Date_now 0 elements
           | _ \<Rightarrow> Inl TypeError))"

text \<open>The \<^verbatim>\<open>try\<close> block of \<^verbatim>\<open>generateExpenseInsights\<close>.\<close>

definition generateExpenseInsights_try ::
  "service \<Rightarrow> (string \<Rightarrow> jsval option) \<Rightarrow> (nat \<Rightarrow> int) \<Rightarrow> ExpenseRecord list \<Rightarrow> jsval + AIInsight list" where
  "generateExpenseInsights_try create JSON_parse Date_now expenses =
     (case await_content (create (InsightsRequest (expensesSummary expenses))) of
        Inl error \<Rightarrow> Inl error
      | Inr response \<Rightarrow>
          (case response of
             None \<Rightarrow> Inl (Error ''No response from AI'')
           | Some response \<Rightarrow>
               if response = [] then Inl (Error ''No response from AI'')
               else parseInsights JSON_parse Date_now (cleanedResponse response)))"

text \<open>The \<^verbatim>\<open>catch\<close> block of \<^verbatim>\<open>generateExpenseInsights\<close>.\<close>

definition generateExpenseInsights_catch :: "jsval \<Rightarrow> jsval + AIInsight list" where
  "generateExpenseInsights_catch error =
     (if isRateLimit error
      then Inr [\<lparr> insight_id = ''fallback-rate-limit'',
                   insight_type = JString ''warning'',
                   insight_title = JString ''AI Analysis Rate Limited'',
                   insight_message = JString ''AI service is temporarily rate limited. Your expenses are still being tracked normally. Try refreshing in a few minutes.'',
                   insight_action = JString ''Try again later'',
                   insight_confidence = JNumber 0.7 \<rparr>]
      else Inr [\<lparr> insight_id = ''fallback-1'',
                   insight_type = JString ''info'',
                   insight_title = JString ''AI Analysis Unavailable'',
                   insight_message = JString ''Unable to generate personalized insights at this time. Please try again later.'',
                   insight_action = JString ''Refresh insights'',
                   insight_confidence = JNumber 0.5 \<rparr>])"

definition generateExpenseInsights ::
  "service \<Rightarrow> (string \<Rightarrow> jsval option) \<Rightarrow> (nat \<Rightarrow> int) \<Rightarrow> ExpenseRecord list \<Rightarrow> jsval + AIInsight list" where
  "generateExpenseInsights create JSON_parse Date_now expenses =
     try_catch (generateExpenseInsights_try create JSON_parse Date_now expenses)
       generateExpenseInsights_catch"

section \<open>categorizeExpense\<close>

definition validCategories :: "string list" where
  "validCategories =
     [''Food'', ''Transportation'', ''Entertainment'', ''Shopping'', ''Bills'', ''Healthcare'', ''Other'']"

text \<open>
  \<^verbatim>\<open>category || ''\<close> for \<^verbatim>\<open>category = content?.trim()\<close>, which is \<^verbatim>\<open>undefined\<close>
  (\<open>None\<close>) when the content is \<^verbatim>\<open>null\<close>.
\<close>

definition or_empty :: "string option \<Rightarrow> string" where
  "or_empty category = (case category of None \<Rightarrow> [] | Some c \<Rightarrow> c)"

text \<open>
  The \<^verbatim>\<open>try\<close> block of \<^verbatim>\<open>categorizeExpense\<close>. \<^verbatim>\<open>category!\<close> is read only where
  \<^verbatim>\<open>validCategories\<close> holds \<^verbatim>\<open>category || ''\<close>.
\<close>

definition categorizeExpense_try :: "service \<Rightarrow> string \<Rightarrow> jsval + string" where
  "categorizeExpense_try create description =
     (case await_content (create (CategorizeRequest description)) of
        Inl error \<Rightarrow> Inl error
      | Inr content \<Rightarrow>
          (let category = map_option trim content;
               finalCategory =
                 (if or_empty category \<in> set validCategories then the category
                  else ''Other'')
           in Inr finalCategory))"

text \<open>The \<^verbatim>\<open>catch\<close> block of \<^verbatim>\<open>categorizeExpense\<close>: both branches call the classifier.\<close>

definition categorizeExpense_catch :: "string \<Rightarrow> jsval \<Rightarrow> jsval + string" where
  "categorizeExpense_catch description error =
     (if isRateLimit error then Inr (categorizeExpenseLocally description)
      else Inr (categorizeExpenseLocally description))"

definition categorizeExpense :: "service \<Rightarrow> string \<Rightarrow> jsval + string" where
  "categorizeExpense create description =
     try_catch (categorizeExpense_try create description) (categorizeExpense_catch description)"

section \<open>generateAIAnswer\<close>

definition generateAIAnswer_try :: "service \<Rightarrow> string \<Rightarrow> ExpenseRecord list \<Rightarrow> jsval + string" where
  "generateAIAnswer_try create question context =
     (case await_content (create (AnswerRequest question (expensesSummary context))) of
        Inl error \<Rightarrow> Inl error
      | Inr response \<Rightarrow>
          (case response of
             None \<Rightarrow> Inl (Error ''No response from AI'')
           | Some response \<Rightarrow>
               if response = [] then Inl (Error ''No response from AI'')
               else Inr (trim response)))"

definition generateAIAnswer_catch :: "jsval \<Rightarrow> jsval + string" where
  "generateAIAnswer_catch error =
     (if isRateLimit error
      then Inr ''The AI service is currently rate limited. Your question will be answered once the service is available again. Please try again in a few minutes.''
      else Inr ''I'm unable to provide a detailed answer at the moment. Please try refreshing the insights or check your connection.'')"

definition generateAIAnswer :: "service \<Rightarrow> string \<Rightarrow> ExpenseRecord list \<Rightarrow> jsval + string" where
  "generateAIAnswer create question context =
     try_catch (generateAIAnswer_try create question context) generateAIAnswer_catch"

section \<open>suggestCategory\<close>

record Suggestion =
  category :: string
  error :: "string option"

text \<open>
  \<^verbatim>\<open>category\<close> and \<^verbatim>\<open>error\<close> are the fields of the result; the constant \<^verbatim>\<open>category\<close>
  of the \<^verbatim>\<open>try\<close> block is \<open>found\<close> here, and the value that the \<^verbatim>\<open>catch\<close> block
  receives is \<open>thrown\<close>.
\<close>

definition suggestCategory_try :: "service \<Rightarrow> string \<Rightarrow> jsval + Suggestion" where
  "suggestCategory_try create description =
     (if description = [] \<or> length (trim description) < 2
      then Inr \<lparr> category = ''Other'', error = Some ''Description too short for analysis'' \<rparr>
      else
        (case categorizeExpense create (trim description) of
           Inl thrown \<Rightarrow> Inl thrown
         | Inr found \<Rightarrow>
             if found \<noteq> [] \<and> found \<noteq> ''Other'' then Inr \<lparr> category = found, error = None \<rparr>
             else if found = ''Other'' then Inr \<lparr> category = found, error = None \<rparr>
             else Inr \<lparr> category = ''Other'', error = Some ''Could not determine category'' \<rparr>))"

definition suggestCategory_catch :: "jsval \<Rightarrow> jsval + Suggestion" where
  "suggestCategory_catch thrown =
     (if isRateLimit thrown
      then Inr \<lparr> category = ''Other'',
                 error = Some ''AI service rate limited, using fallback categorization'' \<rparr>
      else Inr \<lparr> category = ''Other'', error = Some ''Unable to suggest category at this time'' \<rparr>)"

definition suggestCategory :: "service \<Rightarrow> string \<Rightarrow> jsval + Suggestion" where
  "suggestCategory create description =
     try_catch (suggestCategory_try create description) suggestCategory_catch"

section \<open>The statements of the specification\<close>

text \<open>\<open>k\<close> is a substring of \<open>s\<close>.\<close>

definition occurs_in :: "string \<Rightarrow> string \<Rightarrow> bool" where
  "occurs_in k s \<longleftrightarrow> (\<exists>pre post. s = pre @ k @ post)"

text \<open>
  The classifier as the specification words it: six keyword sets in the priority order
  Food, Transportation, Entertainment, Shopping, Bills, Healthcare; the category of the
  first set of which some keyword is a substring of the lowercased and trimmed
  description; \<^verbatim>\<open>Other\<close> when there is none.
\<close>

definition keywordSets :: "(string \<times> string list) list" where
  "keywordSets =
     [(''Food'', foodKeywords), (''Transportation'', transportKeywords),
      (''Entertainment'', entertainmentKeywords), (''Shopping'', shoppingKeywords),
      (''Bills'', billsKeywords), (''Healthcare'', healthcareKeywords)]"

definition classify_spec :: "string \<Rightarrow> string" where
  "classify_spec description =
     (case find (\<lambda>(name, keywords). \<exists>keyword \<in> set keywords. occurs_in keyword (trim (toLowerCase description)))
             keywordSets of
        None \<Rightarrow> ''Other''
      | Some (name, keywords) \<Rightarrow> name)"

text \<open>
  A keyword that normalising a description cannot break: it is not empty, it is in
  lower case, and it neither starts nor ends with white space.
\<close>

definition plainKeyword :: "string \<Rightarrow> bool" where
  "plainKeyword k \<longleftrightarrow>
     k \<noteq> [] \<and> toLowerCase k = k \<and> \<not> isWhiteSpace (hd k) \<and> \<not> isWhiteSpace (last k)"

text \<open>A string of white space only.\<close>

definition blank :: "string \<Rightarrow> bool" where
  "blank w \<longleftrightarrow> list_all isWhiteSpace w"

text \<open>
  The text of a JSON array with no white space around it starts with an opening and
  ends with a closing bracket.
\<close>

definition arrayPayload :: "string \<Rightarrow> bool" where
  "arrayPayload P \<longleftrightarrow> P \<noteq> [] \<and> hd P = CHR ''['' \<and> last P = CHR '']''"

text \<open>
  A payload in Markdown code fences: the opening fence with its tag (\<^verbatim>\<open>json\<close> or
  none), white space, the payload, white space, the closing fence.
\<close>

definition fenced :: "string \<Rightarrow> string \<Rightarrow> string \<Rightarrow> string \<Rightarrow> string" where
  "fenced tag w1 P w2 = ''```'' @ tag @ w1 @ P @ w2 @ ''```''"

text \<open>Services that settle every call in the same way.\<close>

definition rejects :: "jsval \<Rightarrow> service" where
  "rejects thrown request = Rejected thrown"

definition resolves :: "string option list \<Rightarrow> service" where
  "resolves choices request = Resolved choices"

text \<open>A parser that knows one text.\<close>

definition parses :: "string \<Rightarrow> jsval \<Rightarrow> string \<Rightarrow> jsval option" where
  "parses text v s = (if s = text then Some v else None)"

text \<open>A clock that moves on by one millisecond from one reading to the next.\<close>

definition ticking :: "nat \<Rightarrow> int" where
  "ticking i = 1700000000000 + int i"

text \<open>
  Two responses of the service and what a JSON parser makes of them: an insight with
  neither \<^verbatim>\<open>message\<close>, \<^verbatim>\<open>action\<close> nor \<^verbatim>\<open>confidence\<close>, and an insight whose
  fields are present and falsy.
\<close>

definition tipPayload :: string where
  \<open>tipPayload = ''[{"type":"tip","title":"Cook at home"}]''\<close>

definition tipParsed :: jsval where
  "tipParsed = JArray [JObject [(''type'', JString ''tip''), (''title'', JString ''Cook at home'')]]"

definition falsyPayload :: string where
  \<open>falsyPayload = ''[{"type":"","title":"","message":"","confidence":0}]''\<close>

definition falsyParsed :: jsval where
  "falsyParsed =
     JArray [JObject [(''type'', JString []), (''title'', JString []), (''message'', JString []),
                      (''confidence'', JNumber 0)]]"

text \<open>
  The defaults as the specification words them: what an insight made from an element
  has where the element lacks a field, where a field of the element is falsy, and
  where it is truthy.
\<close>

definition fills_missing :: "jsval \<Rightarrow> AIInsight \<Rightarrow> bool" where
  "fills_missing element insight \<longleftrightarrow>
     (property element ''type'' = JUndefined \<longrightarrow> insight_type insight = JString ''info'')
     \<and> (property element ''title'' = JUndefined \<longrightarrow> insight_title insight = JString ''AI Insight'')
     \<and> (property element ''message'' = JUndefined
          \<longrightarrow> insight_message insight = JString ''Analysis complete'')
     \<and> (property element ''confidence'' = JUndefined \<longrightarrow> insight_confidence insight = JNumber 0.8)"

definition fills_falsy :: "jsval \<Rightarrow> AIInsight \<Rightarrow> bool" where
  "fills_falsy element insight \<longleftrightarrow>
     (\<not> truthy (property element ''type'') \<longrightarrow> insight_type insight = JString ''info'')
     \<and> (\<not> truthy (property element ''title'') \<longrightarrow> insight_title insight = JString ''AI Insight'')
     \<and> (\<not> truthy (property element ''message'')
          \<longrightarrow> insight_message insight = JString ''Analysis complete'')
     \<and> (\<not> truthy (property element ''confidence'') \<longrightarrow> insight_confidence insight = JNumber 0.8)"

definition keeps_truthy :: "jsval \<Rightarrow> AIInsight \<Rightarrow> bool" where
  "keeps_truthy element insight \<longleftrightarrow>
     (truthy (property element ''type'') \<longrightarrow> insight_type insight = property element ''type'')
     \<and> (truthy (property element ''title'') \<longrightarrow> insight_title insight = property element ''title'')
     \<and> (truthy (property element ''message'')
          \<longrightarrow> insight_message insight = property element ''message'')
     \<and> (truthy (property element ''confidence'')
          \<longrightarrow> insight_confidence insight = property element ''confidence'')"

text \<open>
  An insight without its identifier, and a result of \<^verbatim>\<open>generateExpenseInsights\<close>
  without the identifiers: two calls read the clock at different times, so the
  identifiers of their insights differ.
\<close>

definition fields_only :: "AIInsight \<Rightarrow> jsval \<times> jsval \<times> jsval \<times> jsval \<times> jsval" where
  "fields_only insight =
     (insight_type insight, insight_title insight, insight_message insight,
      insight_action insight, insight_confidence insight)"

definition insight_fields ::
  "jsval + AIInsight list \<Rightarrow> jsval + (jsval \<times> jsval \<times> jsval \<times> jsval \<times> jsval) list" where
  "insight_fields result = map_sum id (map fields_only) result"

text \<open>
  Two responses whose array holds \<^verbatim>\<open>null\<close> after an object: an object with no field,
  and an object whose \<^verbatim>\<open>confidence\<close> is 0.
\<close>

definition nullPayload :: string where
  "nullPayload = ''[{},null]''"

definition nullParsed :: jsval where
  "nullParsed = JArray [JObject [], JNull]"

definition zeroNullPayload :: string where
  \<open>zeroNullPayload = ''[{"confidence":0},null]''\<close>

definition zeroNullParsed :: jsval where
  "zeroNullParsed = JArray [JObject [(''confidence'', JNumber 0)], JNull]"

section \<open>Facts about strings\<close>

lemma startsWith_iff: "startsWith s p \<longleftrightarrow> (\<exists>post. s = p @ post)"
  by (induction s p rule: startsWith.induct) auto

lemma includes_iff: "includes s k \<longleftrightarrow> (\<exists>pre post. s = pre @ k @ post)"
proof (induction s)
  case Nil
  then show ?case by simp
next
  case (Cons c cs)
  show ?case
  proof
    assume "includes (c # cs) k"
    then consider "startsWith (c # cs) k" | "includes cs k" by auto
    then show "\<exists>pre post. c # cs = pre @ k @ post"
    proof cases
      case 1
      then obtain post where "c # cs = k @ post" by (auto simp: startsWith_iff)
      then have "c # cs = [] @ k @ post" by simp
      then show ?thesis by blast
    next
      case 2
      then obtain pre post where "cs = pre @ k @ post" using Cons.IH by blast
      then have "c # cs = (c # pre) @ k @ post" by simp
      then show ?thesis by blast
    qed
  next
    assume "\<exists>pre post. c # cs = pre @ k @ post"
    then obtain pre post where eq: "c # cs = pre @ k @ post" by blast
    show "includes (c # cs) k"
    proof (cases pre)
      case Nil
      with eq have "startsWith (c # cs) k" by (auto simp: startsWith_iff)
      then show ?thesis by simp
    next
      case (Cons a pre')
      with eq have "cs = pre' @ k @ post" by simp
      then have "includes cs k" using Cons.IH by blast
      then show ?thesis by simp
    qed
  qed
qed

lemma dropWhile_keeps_word:
  assumes "k \<noteq> []" "\<not> P (hd k)"
  shows "\<exists>pre'. dropWhile P (pre @ k @ post) = pre' @ k @ post"
proof (cases "\<forall>x\<in>set pre. P x")
  case True
  then have "dropWhile P (pre @ k @ post) = dropWhile P (k @ post)"
    by (simp add: dropWhile_append2)
  also have "\<dots> = k @ post" using assms by (cases k) auto
  finally have "dropWhile P (pre @ k @ post) = [] @ k @ post" by simp
  then show ?thesis by blast
next
  case False
  then obtain x where "x \<in> set pre" "\<not> P x" by blast
  then have "dropWhile P (pre @ k @ post) = dropWhile P pre @ k @ post"
    by (rule dropWhile_append1)
  then show ?thesis by blast
qed

lemma trimStart_keeps_word:
  assumes "k \<noteq> []" "\<not> isWhiteSpace (hd k)"
  shows "\<exists>pre'. trimStart (pre @ k @ post) = pre' @ k @ post"
  unfolding trimStart_def using assms by (rule dropWhile_keeps_word)

lemma trimEnd_keeps_word:
  assumes "k \<noteq> []" "\<not> isWhiteSpace (last k)"
  shows "\<exists>post'. trimEnd (pre @ k @ post) = pre @ k @ post'"
proof -
  from assms have "rev k \<noteq> []" "\<not> isWhiteSpace (hd (rev k))" by (simp_all add: hd_rev)
  then obtain q where "dropWhile isWhiteSpace (rev post @ rev k @ rev pre) = q @ rev k @ rev pre"
    using dropWhile_keeps_word by blast
  then have "trimEnd (pre @ k @ post) = pre @ k @ rev q"
    by (simp add: trimEnd_def)
  then show ?thesis by blast
qed

lemma trim_keeps_word:
  assumes "k \<noteq> []" "\<not> isWhiteSpace (hd k)" "\<not> isWhiteSpace (last k)"
  shows "\<exists>pre' post'. trim (pre @ k @ post) = pre' @ k @ post'"
proof -
  obtain pre' where "trimStart (pre @ k @ post) = pre' @ k @ post"
    using trimStart_keeps_word assms by blast
  moreover obtain post' where "trimEnd (pre' @ k @ post) = pre' @ k @ post'"
    using trimEnd_keeps_word assms by blast
  ultimately show ?thesis by (auto simp: trim_def)
qed

lemma toLowerCase_append: "toLowerCase (a @ b) = toLowerCase a @ toLowerCase b"
  by (simp add: toLowerCase_def)

lemma normalise_keeps_keyword:
  assumes "plainKeyword k" "includes d k"
  shows "includes (trim (toLowerCase d)) k"
proof -
  from assms obtain pre post where "d = pre @ k @ post" by (auto simp: includes_iff)
  then have "toLowerCase d = toLowerCase pre @ k @ toLowerCase post"
    using assms(1) by (simp add: toLowerCase_append plainKeyword_def)
  then show ?thesis
    using trim_keeps_word [of k "toLowerCase pre" "toLowerCase post"] assms(1)
    by (auto simp: includes_iff plainKeyword_def)
qed

section \<open>The classifier follows its specification\<close>

lemma occurs_in_includes: "occurs_in k s \<longleftrightarrow> includes s k"
  by (simp add: occurs_in_def includes_iff)

lemma foodKeywords_plain: "list_all plainKeyword foodKeywords"
  by code_simp

lemma classify_refines:
  "categorizeExpenseLocally description = classify_spec description"
  by (simp add: categorizeExpenseLocally_def classify_spec_def keywordSets_def some_def
        list_ex_iff occurs_in_includes Let_def)

lemma classify_food_first:
  "\<exists>keyword \<in> set foodKeywords. includes (trim (toLowerCase description)) keyword
     \<Longrightarrow> categorizeExpenseLocally description = ''Food''"
  by (simp add: categorizeExpenseLocally_def some_def list_ex_iff Let_def)

lemma classify_food_keyword:
  assumes "keyword \<in> set foodKeywords" "occurs_in keyword description"
  shows "categorizeExpenseLocally description = ''Food''"
proof -
  have "plainKeyword keyword"
    using foodKeywords_plain assms(1) by (simp add: list_all_iff)
  then have "includes (trim (toLowerCase description)) keyword"
    using assms(2) by (simp add: normalise_keeps_keyword occurs_in_includes)
  then show ?thesis using assms(1) classify_food_first by blast
qed

lemma classify_empty: "categorizeExpenseLocally '''' = ''Other''"
  by code_simp

lemma classify_spaces: "categorizeExpenseLocally ''   '' = ''Other''"
  by code_simp

lemma restaurant_food: "''restaurant'' \<in> set foodKeywords"
  by (simp add: foodKeywords_def)

lemma starbucks_food: "''starbucks'' \<in> set foodKeywords"
  by (simp add: foodKeywords_def)

lemma classify_upper_case: "categorizeExpenseLocally ''STARBUCKS'' = ''Food''"
  by code_simp

lemma upper_case_normalised: "trim (toLowerCase ''STARBUCKS run'') = ''starbucks run''"
  by code_simp

text \<open>
  Claim C3. For every description, the classifier lowercases and trims it and returns
  the category of the first keyword set, in the order Food, Transportation,
  Entertainment, Shopping, Bills, Healthcare, of which some keyword is a substring of
  the normalised description, and \<^verbatim>\<open>Other\<close> when no keyword matches. Hence a
  description that holds a Food keyword in its normalised form is Food whatever else it
  holds, a description that holds both a Food and a Bills keyword is Food, one with
  both \<^verbatim>\<open>restaurant\<close> and \<^verbatim>\<open>bill\<close> in it for example, and the empty description
  and the description of three spaces are \<^verbatim>\<open>Other\<close>. The match does not depend
  on the case of the description: \<^verbatim>\<open>STARBUCKS\<close> is Food.
\<close>

theorem classify_first_matching_set:
  "categorizeExpenseLocally description = classify_spec description
   \<and> ((\<exists>keyword \<in> set foodKeywords. occurs_in keyword (trim (toLowerCase description)))
        \<longrightarrow> categorizeExpenseLocally description = ''Food'')
   \<and> ((\<exists>keyword \<in> set foodKeywords. occurs_in keyword description)
          \<and> (\<exists>keyword \<in> set billsKeywords. occurs_in keyword description)
        \<longrightarrow> categorizeExpenseLocally description = ''Food'')
   \<and> (occurs_in ''restaurant'' description \<and> occurs_in ''bill'' description
        \<longrightarrow> categorizeExpenseLocally description = ''Food'')
   \<and> categorizeExpenseLocally '''' = ''Other''
   \<and> categorizeExpenseLocally ''   '' = ''Other''
   \<and> categorizeExpenseLocally ''STARBUCKS'' = ''Food''"
proof (intro conjI impI)
  show "categorizeExpenseLocally description = classify_spec description"
    by (rule classify_refines)
next
  assume "\<exists>keyword \<in> set foodKeywords. occurs_in keyword (trim (toLowerCase description))"
  then show "categorizeExpenseLocally description = ''Food''"
    by (simp add: classify_food_first occurs_in_includes)
next
  assume "(\<exists>keyword \<in> set foodKeywords. occurs_in keyword description)
          \<and> (\<exists>keyword \<in> set billsKeywords. occurs_in keyword description)"
  then show "categorizeExpenseLocally description = ''Food''"
    using classify_food_keyword by blast
next
  assume "occurs_in ''restaurant'' description \<and> occurs_in ''bill'' description"
  then show "categorizeExpenseLocally description = ''Food''"
    using classify_food_keyword [OF restaurant_food] by blast
next
  show "categorizeExpenseLocally '''' = ''Other''" by (rule classify_empty)
next
  show "categorizeExpenseLocally ''   '' = ''Other''" by (rule classify_spaces)
next
  show "categorizeExpenseLocally ''STARBUCKS'' = ''Food''" by (rule classify_upper_case)
qed

theorem classify_first_matching_set_witness:
  "occurs_in ''restaurant'' ''Paid the bill at the restaurant''
   \<and> occurs_in ''bill'' ''Paid the bill at the restaurant''
   \<and> categorizeExpenseLocally ''Paid the bill at the restaurant'' = ''Food''
   \<and> classify_spec ''Paid the bill at the restaurant'' = ''Food''
   \<and> occurs_in ''starbucks'' (trim (toLowerCase ''STARBUCKS run''))
   \<and> categorizeExpenseLocally ''STARBUCKS run'' = ''Food''"
proof -
  have r: "occurs_in ''restaurant'' ''Paid the bill at the restaurant''"
    by (simp add: occurs_in_includes)
  have b: "occurs_in ''bill'' ''Paid the bill at the restaurant''"
    by (simp add: occurs_in_includes)
  note t = classify_first_matching_set [of "''Paid the bill at the restaurant''"]
  from t r b have f: "categorizeExpenseLocally ''Paid the bill at the restaurant'' = ''Food''"
    by blast
  from t have "classify_spec ''Paid the bill at the restaurant'' =
      categorizeExpenseLocally ''Paid the bill at the restaurant''"
    by simp
  with f have c: "classify_spec ''Paid the bill at the restaurant'' = ''Food''"
    by simp
  have "occurs_in ''starbucks'' ''starbucks run''"
    by (simp add: occurs_in_includes)
  then have u: "occurs_in ''starbucks'' (trim (toLowerCase ''STARBUCKS run''))"
    by (simp only: upper_case_normalised)
  with starbucks_food
  have "\<exists>keyword \<in> set foodKeywords. occurs_in keyword (trim (toLowerCase ''STARBUCKS run''))"
    by blast
  then have s: "categorizeExpenseLocally ''STARBUCKS run'' = ''Food''"
    using classify_first_matching_set [of "''STARBUCKS run''"] by blast
  from r b f c u s show ?thesis by blast
qed

section \<open>What categorizeExpense returns\<close>

lemma try_catch_Inl: "try_catch (Inl thrown) handler = handler thrown"
  by (simp add: try_catch_def)

lemma try_catch_Inr: "try_catch (Inr v) handler = Inr v"
  by (simp add: try_catch_def)

lemma await_content_Rejected: "await_content (Rejected thrown) = Inl thrown"
  by (simp add: await_content_def)

lemma await_content_Resolved: "await_content (Resolved (content # rest)) = Inr content"
  by (simp add: await_content_def first_content_def)

lemma await_content_empty: "await_content (Resolved []) = Inl TypeError"
  by (simp add: await_content_def first_content_def)

lemma classify_valid: "categorizeExpenseLocally description \<in> set validCategories"
  by (simp add: categorizeExpenseLocally_def validCategories_def Let_def)

lemma categorizeExpense_catch_classifies:
  "categorizeExpense_catch description thrown = Inr (categorizeExpenseLocally description)"
  by (simp add: categorizeExpense_catch_def)

lemma categorizeExpense_thrown:
  "categorizeExpense_try create description = Inl thrown
     \<Longrightarrow> categorizeExpense create description = Inr (categorizeExpenseLocally description)"
  by (simp add: categorizeExpense_def try_catch_Inl categorizeExpense_catch_classifies)

lemma categorizeExpense_try_Rejected:
  "create (CategorizeRequest description) = Rejected thrown
     \<Longrightarrow> categorizeExpense_try create description = Inl thrown"
  by (simp add: categorizeExpense_try_def await_content_Rejected)

lemma empty_not_valid: "[] \<notin> set validCategories"
  by (simp add: validCategories_def)

lemma categorizeExpense_try_Resolved:
  assumes "create (CategorizeRequest description) = Resolved (content # rest)"
  shows "categorizeExpense_try create description =
           Inr (if or_empty (map_option trim content) \<in> set validCategories
                then or_empty (map_option trim content) else ''Other'')"
proof (cases content)
  case None
  then show ?thesis
    using assms empty_not_valid
    by (simp add: categorizeExpense_try_def await_content_Resolved or_empty_def)
next
  case (Some response)
  then show ?thesis
    using assms
    by (simp add: categorizeExpense_try_def await_content_Resolved or_empty_def)
qed

lemma categorizeExpense_Resolved:
  assumes "create (CategorizeRequest description) = Resolved (content # rest)"
  shows "categorizeExpense create description =
           Inr (if or_empty (map_option trim content) \<in> set validCategories
                then or_empty (map_option trim content) else ''Other'')"
  using categorizeExpense_try_Resolved [of create description content rest] assms
  by (simp add: categorizeExpense_def try_catch_Inr)

lemma other_valid: "''Other'' \<in> set validCategories"
  by (simp add: validCategories_def)

lemma categorizeExpense_valid:
  "\<exists>found. categorizeExpense create description = Inr found \<and> found \<in> set validCategories"
proof (cases "create (CategorizeRequest description)")
  case (Rejected thrown)
  then show ?thesis
    using categorizeExpense_thrown [of create description thrown]
      categorizeExpense_try_Rejected [of create description thrown] classify_valid by blast
next
  case (Resolved choices)
  show ?thesis
  proof (cases choices)
    case Nil
    with Resolved have "categorizeExpense_try create description = Inl TypeError"
      by (simp add: categorizeExpense_try_def await_content_empty)
    then show ?thesis
      using categorizeExpense_thrown [of create description TypeError] classify_valid by blast
  next
    case (Cons content rest)
    with Resolved have "create (CategorizeRequest description) = Resolved (content # rest)"
      by simp
    then show ?thesis
      using categorizeExpense_Resolved [of create description content rest] other_valid by auto
  qed
qed

lemma dinner_food: "categorizeExpenseLocally ''Dinner at a restaurant'' = ''Food''"
  by code_simp

text \<open>
  Claim C1. For every description, when the remote call of \<^verbatim>\<open>categorizeExpense\<close>
  fails with any thrown value, rate limit or not, and more generally when anything is
  thrown inside its \<^verbatim>\<open>try\<close> block, the function returns what the keyword classifier
  returns for that description. A rate-limit failure on \<^verbatim>\<open>Dinner at a restaurant\<close> gives
  \<^verbatim>\<open>Food\<close>, which is what the classifier gives.
\<close>

theorem categorize_failure_delegates:
  "(create (CategorizeRequest description) = Rejected thrown
      \<longrightarrow> categorizeExpense create description = Inr (categorizeExpenseLocally description))
   \<and> (categorizeExpense_try create description = Inl thrown
      \<longrightarrow> categorizeExpense create description = Inr (categorizeExpenseLocally description))
   \<and> (create (CategorizeRequest ''Dinner at a restaurant'') = Rejected thrown
      \<longrightarrow> categorizeExpense create ''Dinner at a restaurant'' = Inr ''Food'')
   \<and> categorizeExpenseLocally ''Dinner at a restaurant'' = ''Food''"
proof (intro conjI impI)
  assume "create (CategorizeRequest description) = Rejected thrown"
  then show "categorizeExpense create description = Inr (categorizeExpenseLocally description)"
    using categorizeExpense_thrown [of create description thrown]
      categorizeExpense_try_Rejected [of create description thrown] by blast
next
  assume "categorizeExpense_try create description = Inl thrown"
  then show "categorizeExpense create description = Inr (categorizeExpenseLocally description)"
    by (rule categorizeExpense_thrown)
next
  assume "create (CategorizeRequest ''Dinner at a restaurant'') = Rejected thrown"
  then have "categorizeExpense create ''Dinner at a restaurant'' =
      Inr (categorizeExpenseLocally ''Dinner at a restaurant'')"
    using categorizeExpense_thrown [of create "''Dinner at a restaurant''" thrown]
      categorizeExpense_try_Rejected [of create "''Dinner at a restaurant''" thrown] by blast
  then show "categorizeExpense create ''Dinner at a restaurant'' = Inr ''Food''"
    by (simp only: dinner_food)
next
  show "categorizeExpenseLocally ''Dinner at a restaurant'' = ''Food''"
    by (rule dinner_food)
qed

theorem categorize_failure_delegates_witness:
  "rejects (JObject [(''status'', JNumber 429)]) (CategorizeRequest ''Dinner at a restaurant'')
      = Rejected (JObject [(''status'', JNumber 429)])
   \<and> isRateLimit (JObject [(''status'', JNumber 429)])
   \<and> categorizeExpense (rejects (JObject [(''status'', JNumber 429)])) ''Dinner at a restaurant''
      = Inr ''Food''
   \<and> categorizeExpense_try (resolves []) ''Dinner at a restaurant'' = Inl TypeError
   \<and> categorizeExpense (resolves []) ''Dinner at a restaurant''
      = Inr (categorizeExpenseLocally ''Dinner at a restaurant'')"
proof -
  let ?e = "JObject [(''status'', JNumber 429)]"
  have r: "rejects ?e (CategorizeRequest ''Dinner at a restaurant'') = Rejected ?e"
    by (simp add: rejects_def)
  have l: "isRateLimit ?e"
    by (simp add: isRateLimit_def optional_property_def nullish_def)
  have t: "categorizeExpense_try (resolves []) ''Dinner at a restaurant'' = Inl TypeError"
    by (simp add: categorizeExpense_try_def resolves_def await_content_empty)
  from r have f: "categorizeExpense (rejects ?e) ''Dinner at a restaurant'' = Inr ''Food''"
    using categorize_failure_delegates [of "rejects ?e" "''Dinner at a restaurant''" ?e] by blast
  from t have g: "categorizeExpense (resolves []) ''Dinner at a restaurant''
      = Inr (categorizeExpenseLocally ''Dinner at a restaurant'')"
    using categorize_failure_delegates [of "resolves []" "''Dinner at a restaurant''" TypeError]
    by blast
  from r l f t g show ?thesis by blast
qed

lemma trim_examples:
  "trim ''Food'' = ''Food''" "trim ''Groceries'' = ''Groceries''" "trim ''food'' = ''food''"
  "trim ''Fo od'' = ''Fo od''" "trim '' Food '' = ''Food''"
  by code_simp+

lemma valid_examples:
  "''Food'' \<in> set validCategories" "''Groceries'' \<notin> set validCategories"
  "''food'' \<notin> set validCategories" "''Fo od'' \<notin> set validCategories"
  "'' Food '' \<notin> set validCategories"
  by (simp_all add: validCategories_def)

text \<open>
  Claim C4, as the code has it. On remote success \<^verbatim>\<open>categorizeExpense\<close> trims the
  content of the first choice and matches the trimmed text exactly against the seven
  categories: a trimmed text that is a category is returned, so \<^verbatim>\<open>Food\<close> gives
  \<^verbatim>\<open>Food\<close>; a trimmed text that is not a category gives \<^verbatim>\<open>Other\<close>, so
  \<^verbatim>\<open>Groceries\<close>, the differently cased \<^verbatim>\<open>food\<close> and \<^verbatim>\<open>Fo od\<close> with white space
  inside give \<^verbatim>\<open>Other\<close>; a content of \<^verbatim>\<open>null\<close> gives \<^verbatim>\<open>Other\<close>. White space around
  a category is removed before the match: a response of \<^verbatim>\<open>Food\<close> between two spaces
  gives \<^verbatim>\<open>Food\<close>.
\<close>

theorem categorize_matches_trimmed_content:
  "(create (CategorizeRequest description) = Resolved (Some response # rest)
      \<and> trim response \<in> set validCategories
      \<longrightarrow> categorizeExpense create description = Inr (trim response))
   \<and> (create (CategorizeRequest description) = Resolved (Some response # rest)
      \<and> trim response \<notin> set validCategories
      \<longrightarrow> categorizeExpense create description = Inr ''Other'')
   \<and> (create (CategorizeRequest description) = Resolved (None # rest)
      \<longrightarrow> categorizeExpense create description = Inr ''Other'')
   \<and> trim ''Food'' = ''Food'' \<and> ''Food'' \<in> set validCategories
   \<and> trim ''Groceries'' \<notin> set validCategories
   \<and> trim ''food'' \<notin> set validCategories
   \<and> trim ''Fo od'' \<notin> set validCategories
   \<and> trim '' Food '' = ''Food''"
proof (intro conjI impI)
  assume "create (CategorizeRequest description) = Resolved (Some response # rest)
      \<and> trim response \<in> set validCategories"
  then show "categorizeExpense create description = Inr (trim response)"
    using categorizeExpense_Resolved [of create description "Some response" rest]
    by (simp add: or_empty_def)
next
  assume "create (CategorizeRequest description) = Resolved (Some response # rest)
      \<and> trim response \<notin> set validCategories"
  then show "categorizeExpense create description = Inr ''Other''"
    using categorizeExpense_Resolved [of create description "Some response" rest]
    by (simp add: or_empty_def)
next
  assume "create (CategorizeRequest description) = Resolved (None # rest)"
  then show "categorizeExpense create description = Inr ''Other''"
    using categorizeExpense_Resolved [of create description None rest] empty_not_valid
    by (simp add: or_empty_def)
qed (simp_all only: trim_examples valid_examples not_False_eq_True)

theorem categorize_matches_trimmed_content_witness:
  "categorizeExpense (resolves [Some ''Food'']) ''taxi'' = Inr ''Food''
   \<and> categorizeExpense (resolves [Some '' Food '']) ''taxi'' = Inr ''Food''
   \<and> categorizeExpense (resolves [Some ''Groceries'']) ''taxi'' = Inr ''Other''
   \<and> categorizeExpense (resolves [Some ''food'']) ''taxi'' = Inr ''Other''
   \<and> categorizeExpense (resolves [None]) ''taxi'' = Inr ''Other''"
proof -
  have r: "resolves choices (CategorizeRequest ''taxi'') = Resolved choices" for choices
    by (simp add: resolves_def)
  have "categorizeExpense (resolves [Some ''Food'']) ''taxi'' = Inr ''Food''"
    using categorize_matches_trimmed_content
      [of "resolves [Some ''Food'']" "''taxi''" "''Food''" "[]"] r
    by (simp add: trim_examples valid_examples)
  moreover have "categorizeExpense (resolves [Some '' Food '']) ''taxi'' = Inr ''Food''"
    using categorize_matches_trimmed_content
      [of "resolves [Some '' Food '']" "''taxi''" "'' Food ''" "[]"] r
    by (simp add: trim_examples valid_examples)
  moreover have "categorizeExpense (resolves [Some ''Groceries'']) ''taxi'' = Inr ''Other''"
    using categorize_matches_trimmed_content
      [of "resolves [Some ''Groceries'']" "''taxi''" "''Groceries''" "[]"] r
    by (simp add: trim_examples valid_examples)
  moreover have "categorizeExpense (resolves [Some ''food'']) ''taxi'' = Inr ''Other''"
    using categorize_matches_trimmed_content
      [of "resolves [Some ''food'']" "''taxi''" "''food''" "[]"] r
    by (simp add: trim_examples valid_examples)
  moreover have "categorizeExpense (resolves [None]) ''taxi'' = Inr ''Other''"
    using categorize_matches_trimmed_content [of "resolves [None]" "''taxi''" _ "[]"] r
    by simp
  ultimately show ?thesis by blast
qed

text \<open>
  Claim C4 as the specification states it fails: the response \<^verbatim>\<open>Food\<close> between two
  spaces differs from the category \<^verbatim>\<open>Food\<close> only in white space and is not one of the
  seven categories, yet it is not treated as invalid: the function returns \<^verbatim>\<open>Food\<close>,
  not \<^verbatim>\<open>Other\<close>.
\<close>

theorem categorize_whitespace_counterexample:
  "'' Food '' \<notin> set validCategories
   \<and> filter (Not \<circ> isWhiteSpace) '' Food '' = ''Food''
   \<and> categorizeExpense (resolves [Some '' Food '']) ''taxi'' = Inr ''Food''
   \<and> categorizeExpense (resolves [Some '' Food '']) ''taxi'' \<noteq> Inr ''Other''"
proof -
  have r: "resolves [Some '' Food ''] (CategorizeRequest ''taxi'') = Resolved (Some '' Food '' # [])"
    by (simp add: resolves_def)
  have f: "categorizeExpense (resolves [Some '' Food '']) ''taxi'' = Inr ''Food''"
    using categorizeExpense_Resolved [of "resolves [Some '' Food '']" "''taxi''" "Some '' Food ''" "[]"] r
    by (simp add: or_empty_def trim_examples valid_examples)
  have w: "filter (Not \<circ> isWhiteSpace) '' Food '' = ''Food''"
    by (simp add: isWhiteSpace_def)
  from f w show ?thesis by (simp add: valid_examples)
qed

lemma bills_newline:
  "trim (''Bills'' @ [CHR 0x0A]) = ''Bills''" "''Bills'' @ [CHR 0x0A] \<notin> set validCategories"
  "''Bills'' \<in> set validCategories"
  by code_simp+

text \<open>
  Claim C5, as the code has it. On every path of \<^verbatim>\<open>categorizeExpense\<close>, whether the
  remote call succeeds, fails with a rate limit or fails in any other way, the function
  returns (it does not throw) one of the seven categories, and so does the keyword
  classifier. What is checked against the seven categories is the trimmed content of
  the remote response: a content whose trimmed text is outside the seven categories is
  returned as \<^verbatim>\<open>Other\<close>, and a content whose trimmed text is one of them is returned
  as that category, also where the content itself, with its white space, is not one of
  them.
\<close>

theorem categories_closed:
  "(\<exists>found. categorizeExpense create description = Inr found \<and> found \<in> set validCategories)
   \<and> categorizeExpenseLocally description \<in> set validCategories
   \<and> (create (CategorizeRequest description) = Resolved (Some response # rest)
      \<and> trim response \<notin> set validCategories
      \<longrightarrow> categorizeExpense create description = Inr ''Other'')
   \<and> (create (CategorizeRequest description) = Resolved (Some response # rest)
      \<and> trim response \<in> set validCategories
      \<longrightarrow> categorizeExpense create description = Inr (trim response))
   \<and> (create (CategorizeRequest description) = Resolved (None # rest)
      \<longrightarrow> categorizeExpense create description = Inr ''Other'')
   \<and> set validCategories =
       {''Food'', ''Transportation'', ''Entertainment'', ''Shopping'', ''Bills'', ''Healthcare'', ''Other''}"
proof (intro conjI impI)
  show "\<exists>found. categorizeExpense create description = Inr found \<and> found \<in> set validCategories"
    by (rule categorizeExpense_valid)
next
  show "categorizeExpenseLocally description \<in> set validCategories"
    by (rule classify_valid)
next
  assume "create (CategorizeRequest description) = Resolved (Some response # rest)
      \<and> trim response \<notin> set validCategories"
  then show "categorizeExpense create description = Inr ''Other''"
    using categorizeExpense_Resolved [of create description "Some response" rest]
    by (simp add: or_empty_def)
next
  assume "create (CategorizeRequest description) = Resolved (Some response # rest)
      \<and> trim response \<in> set validCategories"
  then show "categorizeExpense create description = Inr (trim response)"
    using categorizeExpense_Resolved [of create description "Some response" rest]
    by (simp add: or_empty_def)
next
  assume "create (CategorizeRequest description) = Resolved (None # rest)"
  then show "categorizeExpense create description = Inr ''Other''"
    using categorizeExpense_Resolved [of create description None rest] empty_not_valid
    by (simp add: or_empty_def)
next
  show "set validCategories =
       {''Food'', ''Transportation'', ''Entertainment'', ''Shopping'', ''Bills'', ''Healthcare'', ''Other''}"
    by (simp add: validCategories_def)
qed

theorem categories_closed_witness:
  "categorizeExpense (resolves [Some ''Travel'']) ''taxi to the airport'' = Inr ''Other''
   \<and> categorizeExpense (resolves [Some (''Bills'' @ [CHR 0x0A])]) ''taxi to the airport'' = Inr ''Bills''
   \<and> categorizeExpense (resolves [None]) ''taxi to the airport'' = Inr ''Other''
   \<and> categorizeExpense (rejects (JObject [(''code'', JNumber 429)])) ''taxi to the airport''
        = Inr ''Transportation''
   \<and> categorizeExpense (rejects JNull) ''taxi to the airport'' = Inr ''Transportation''
   \<and> ''Transportation'' \<in> set validCategories"
proof -
  have r: "resolves choices (CategorizeRequest ''taxi to the airport'') = Resolved choices"
    for choices
    by (simp add: resolves_def)
  have t: "trim ''Travel'' \<notin> set validCategories"
    by code_simp
  have a: "categorizeExpense (resolves [Some ''Travel'']) ''taxi to the airport'' = Inr ''Other''"
    using categories_closed [of "resolves [Some ''Travel'']" "''taxi to the airport''" "''Travel''" "[]"]
      r t by blast
  have "trim (''Bills'' @ [CHR 0x0A]) \<in> set validCategories"
    by (simp only: bills_newline)
  then have "categorizeExpense (resolves [Some (''Bills'' @ [CHR 0x0A])]) ''taxi to the airport''
      = Inr (trim (''Bills'' @ [CHR 0x0A]))"
    using categories_closed [of "resolves [Some (''Bills'' @ [CHR 0x0A])]" "''taxi to the airport''"
        "''Bills'' @ [CHR 0x0A]" "[]"] r
    by blast
  then have e: "categorizeExpense (resolves [Some (''Bills'' @ [CHR 0x0A])]) ''taxi to the airport''
      = Inr ''Bills''"
    by (simp only: bills_newline)
  have f: "categorizeExpense (resolves [None]) ''taxi to the airport'' = Inr ''Other''"
    using categories_closed [of "resolves [None]" "''taxi to the airport''" _ "[]"] r by blast
  have b: "categorizeExpense (rejects (JObject [(''code'', JNumber 429)])) ''taxi to the airport''
        = Inr ''Transportation''"
    by code_simp
  have c: "categorizeExpense (rejects JNull) ''taxi to the airport'' = Inr ''Transportation''"
    by code_simp
  have d: "''Transportation'' \<in> set validCategories"
    by (simp add: validCategories_def)
  from a e f b c d show ?thesis by blast
qed

text \<open>
  Claim C5 as the specification states it fails in its last clause: the remote value
  \<^verbatim>\<open>Bills\<close> followed by a line feed is not one of the seven categories, and it is not
  turned into \<^verbatim>\<open>Other\<close>: the function returns \<^verbatim>\<open>Bills\<close>.
\<close>

theorem coercion_counterexample:
  "''Bills'' @ [CHR 0x0A] \<notin> set validCategories
   \<and> categorizeExpense (resolves [Some (''Bills'' @ [CHR 0x0A])]) ''taxi to the airport''
        = Inr ''Bills''
   \<and> categorizeExpense (resolves [Some (''Bills'' @ [CHR 0x0A])]) ''taxi to the airport''
        \<noteq> Inr ''Other''"
proof -
  have r: "resolves [Some (''Bills'' @ [CHR 0x0A])] (CategorizeRequest ''taxi to the airport'')
      = Resolved (Some (''Bills'' @ [CHR 0x0A]) # [])"
    by (simp add: resolves_def)
  have "categorizeExpense (resolves [Some (''Bills'' @ [CHR 0x0A])]) ''taxi to the airport''
      = Inr (if or_empty (map_option trim (Some (''Bills'' @ [CHR 0x0A]))) \<in> set validCategories
             then or_empty (map_option trim (Some (''Bills'' @ [CHR 0x0A]))) else ''Other'')"
    using r by (rule categorizeExpense_Resolved)
  then have f: "categorizeExpense (resolves [Some (''Bills'' @ [CHR 0x0A])]) ''taxi to the airport''
      = Inr ''Bills''"
    by (simp only: or_empty_def option.map option.case bills_newline if_True)
  from f bills_newline(2) show ?thesis by simp
qed

section \<open>What suggestCategory returns\<close>

lemma suggestCategory_short:
  assumes "description = [] \<or> length (trim description) < 2"
  shows "suggestCategory create description =
           Inr \<lparr> category = ''Other'', error = Some ''Description too short for analysis'' \<rparr>"
  using assms by (auto simp: suggestCategory_def suggestCategory_try_def try_catch_Inr)

lemma suggestCategory_long:
  assumes "\<not> (description = [] \<or> length (trim description) < 2)"
  shows "\<exists>found. categorizeExpense create (trim description) = Inr found
           \<and> suggestCategory create description = Inr \<lparr> category = found, error = None \<rparr>"
proof -
  obtain found where f: "categorizeExpense create (trim description) = Inr found"
    and v: "found \<in> set validCategories"
    using categorizeExpense_valid [of create "trim description"] by blast
  from v empty_not_valid have "found \<noteq> []" by auto
  with f assms have "suggestCategory create description = Inr \<lparr> category = found, error = None \<rparr>"
    by (auto simp: suggestCategory_def suggestCategory_try_def try_catch_Inr)
  with f show ?thesis by blast
qed

text \<open>
  Claim C10. For a description that is empty or whose trimmed length is below 2,
  \<^verbatim>\<open>suggestCategory\<close> returns the category \<^verbatim>\<open>Other\<close> with the error
  \<^verbatim>\<open>Description too short for analysis\<close>, whatever the remote service would do: neither
  the service nor the classifier is consulted, so two services give the same result.
  For every other description it calls \<^verbatim>\<open>categorizeExpense\<close> on the trimmed
  description, which returns a category, and returns that category with no error.
\<close>

theorem suggestCategory_guard:
  "(description = [] \<or> length (trim description) < 2
      \<longrightarrow> suggestCategory create description =
            Inr \<lparr> category = ''Other'', error = Some ''Description too short for analysis'' \<rparr>
          \<and> suggestCategory create description = suggestCategory create' description)
   \<and> (\<not> (description = [] \<or> length (trim description) < 2)
      \<longrightarrow> (\<exists>found. categorizeExpense create (trim description) = Inr found
            \<and> suggestCategory create description = Inr \<lparr> category = found, error = None \<rparr>))"
proof (intro conjI impI)
  assume s: "description = [] \<or> length (trim description) < 2"
  then show "suggestCategory create description =
      Inr \<lparr> category = ''Other'', error = Some ''Description too short for analysis'' \<rparr>"
    by (rule suggestCategory_short)
  from s show "suggestCategory create description = suggestCategory create' description"
    by (simp only: suggestCategory_short)
next
  assume "\<not> (description = [] \<or> length (trim description) < 2)"
  then show "\<exists>found. categorizeExpense create (trim description) = Inr found
      \<and> suggestCategory create description = Inr \<lparr> category = found, error = None \<rparr>"
    by (rule suggestCategory_long)
qed

theorem suggestCategory_guard_witness:
  "length (trim '' a '') < 2
   \<and> suggestCategory (resolves [Some ''Food'']) '' a '' =
       Inr \<lparr> category = ''Other'', error = Some ''Description too short for analysis'' \<rparr>
   \<and> \<not> ('' gym '' = [] \<or> length (trim '' gym '') < 2)
   \<and> categorizeExpense (resolves [Some ''Healthcare'']) (trim '' gym '') = Inr ''Healthcare''
   \<and> suggestCategory (resolves [Some ''Healthcare'']) '' gym '' =
       Inr \<lparr> category = ''Healthcare'', error = None \<rparr>"
proof -
  have s: "length (trim '' a '') < 2" by code_simp
  have l: "\<not> ('' gym '' = [] \<or> length (trim '' gym '') < 2)" by code_simp
  have c: "categorizeExpense (resolves [Some ''Healthcare'']) (trim '' gym '') = Inr ''Healthcare''"
    by code_simp
  have a: "suggestCategory (resolves [Some ''Food'']) '' a '' =
       Inr \<lparr> category = ''Other'', error = Some ''Description too short for analysis'' \<rparr>"
    using suggestCategory_guard [of "'' a ''" "resolves [Some ''Food'']"] s by blast
  obtain found where "categorizeExpense (resolves [Some ''Healthcare'']) (trim '' gym '') = Inr found"
    and "suggestCategory (resolves [Some ''Healthcare'']) '' gym '' =
       Inr \<lparr> category = found, error = None \<rparr>"
    using suggestCategory_guard [of "'' gym ''" "resolves [Some ''Healthcare'']"] l by blast
  with c have b: "suggestCategory (resolves [Some ''Healthcare'']) '' gym '' =
       Inr \<lparr> category = ''Healthcare'', error = None \<rparr>"
    by simp
  from s a l c b show ?thesis by blast
qed

section \<open>What generateAIAnswer returns\<close>

lemma try_catch_returns:
  assumes "\<And>thrown. \<exists>v. handler thrown = Inr v"
  shows "\<exists>v. try_catch body handler = Inr v"
  using assms by (cases body) (simp_all add: try_catch_def)

lemma generateAIAnswer_try_Rejected:
  "create (AnswerRequest question (expensesSummary context)) = Rejected thrown
     \<Longrightarrow> generateAIAnswer_try create question context = Inl thrown"
  by (simp add: generateAIAnswer_try_def await_content_Rejected)

lemma generateAIAnswer_returns:
  "\<exists>answer. generateAIAnswer create question context = Inr answer"
  unfolding generateAIAnswer_def
  by (rule try_catch_returns) (simp add: generateAIAnswer_catch_def)

lemma isRateLimit_examples:
  "isRateLimit (JObject [(''status'', JNumber 429)])"
  "isRateLimit (JObject [(''code'', JNumber 429)])"
  "\<not> isRateLimit (JObject [(''status'', JNumber 500)])"
  "\<not> isRateLimit (JObject [(''status'', JString ''429'')])"
  "\<not> isRateLimit JNull"
  by (simp_all add: isRateLimit_def optional_property_def nullish_def)

lemma raised_not_rate_limit:
  "\<not> isRateLimit TypeError" "\<not> isRateLimit SyntaxError" "\<not> isRateLimit (Error msg)"
  by (simp_all add: isRateLimit_def optional_property_def nullish_def TypeError_def
        SyntaxError_def Error_def)

text \<open>
  Claim C8. For every question and context, when the remote call of
  \<^verbatim>\<open>generateAIAnswer\<close> is rejected with a value whose \<^verbatim>\<open>status\<close> or \<^verbatim>\<open>code\<close> is the
  number 429, the function returns the fixed advice that the service is rate limited;
  when it is rejected with any other value, it returns the fixed advice to retry; and
  in every case the function returns a string, it never throws.
\<close>

theorem answer_failure_advice:
  "(create (AnswerRequest question (expensesSummary context)) = Rejected thrown
      \<and> isRateLimit thrown
      \<longrightarrow> generateAIAnswer create question context =
            Inr ''The AI service is currently rate limited. Your question will be answered once the service is available again. Please try again in a few minutes.'')
   \<and> (create (AnswerRequest question (expensesSummary context)) = Rejected thrown
      \<and> \<not> isRateLimit thrown
      \<longrightarrow> generateAIAnswer create question context =
            Inr ''I'm unable to provide a detailed answer at the moment. Please try refreshing the insights or check your connection.'')
   \<and> (\<exists>answer. generateAIAnswer create question context = Inr answer)"
proof (intro conjI impI)
  assume "create (AnswerRequest question (expensesSummary context)) = Rejected thrown
      \<and> isRateLimit thrown"
  then show "generateAIAnswer create question context =
      Inr ''The AI service is currently rate limited. Your question will be answered once the service is available again. Please try again in a few minutes.''"
    using generateAIAnswer_try_Rejected [of create question "context" thrown]
    by (simp add: generateAIAnswer_def try_catch_Inl generateAIAnswer_catch_def)
next
  assume "create (AnswerRequest question (expensesSummary context)) = Rejected thrown
      \<and> \<not> isRateLimit thrown"
  then show "generateAIAnswer create question context =
      Inr ''I'm unable to provide a detailed answer at the moment. Please try refreshing the insights or check your connection.''"
    using generateAIAnswer_try_Rejected [of create question "context" thrown]
    by (simp add: generateAIAnswer_def try_catch_Inl generateAIAnswer_catch_def)
next
  show "\<exists>answer. generateAIAnswer create question context = Inr answer"
    by (rule generateAIAnswer_returns)
qed

theorem answer_failure_advice_witness:
  "isRateLimit (JObject [(''status'', JNumber 429)])
   \<and> generateAIAnswer (rejects (JObject [(''status'', JNumber 429)])) ''Where do I spend most?'' [] =
       Inr ''The AI service is currently rate limited. Your question will be answered once the service is available again. Please try again in a few minutes.''
   \<and> \<not> isRateLimit (JObject [(''status'', JNumber 500)])
   \<and> generateAIAnswer (rejects (JObject [(''status'', JNumber 500)])) ''Where do I spend most?'' [] =
       Inr ''I'm unable to provide a detailed answer at the moment. Please try refreshing the insights or check your connection.''"
proof -
  have r: "rejects thrown (AnswerRequest ''Where do I spend most?'' (expensesSummary [])) = Rejected thrown"
    for thrown
    by (simp add: rejects_def)
  have a: "generateAIAnswer (rejects (JObject [(''status'', JNumber 429)])) ''Where do I spend most?'' [] =
       Inr ''The AI service is currently rate limited. Your question will be answered once the service is available again. Please try again in a few minutes.''"
    using answer_failure_advice [of "rejects (JObject [(''status'', JNumber 429)])"
        "''Where do I spend most?''" "[]" "JObject [(''status'', JNumber 429)]"]
      r isRateLimit_examples(1) by blast
  have b: "generateAIAnswer (rejects (JObject [(''status'', JNumber 500)])) ''Where do I spend most?'' [] =
       Inr ''I'm unable to provide a detailed answer at the moment. Please try refreshing the insights or check your connection.''"
    using answer_failure_advice [of "rejects (JObject [(''status'', JNumber 500)])"
        "''Where do I spend most?''" "[]" "JObject [(''status'', JNumber 500)]"]
      r isRateLimit_examples(3) by blast
  from a b isRateLimit_examples(1,3) show ?thesis by blast
qed

section \<open>Cleaning the response\<close>

lemma startsWith_append: "startsWith (p @ s) p"
  by (simp add: startsWith_iff)

lemma startsWith_hd: "startsWith s (c # p) \<Longrightarrow> s \<noteq> [] \<and> hd s = c"
  by (cases s) simp_all

lemma dropWhile_blank: "blank w \<Longrightarrow> dropWhile isWhiteSpace (w @ s) = dropWhile isWhiteSpace s"
  by (simp add: blank_def list_all_iff dropWhile_append2)

lemma dropWhile_solid: "s \<noteq> [] \<Longrightarrow> \<not> isWhiteSpace (hd s) \<Longrightarrow> dropWhile isWhiteSpace s = s"
  by (cases s) simp_all

lemma blank_rev: "blank (rev w) = blank w"
  by (simp add: blank_def list_all_iff)

lemma trimStart_around:
  "blank a \<Longrightarrow> s \<noteq> [] \<Longrightarrow> \<not> isWhiteSpace (hd s) \<Longrightarrow> trimStart (a @ s) = s"
  by (simp add: trimStart_def dropWhile_blank dropWhile_solid)

lemma trimEnd_around:
  assumes "blank b" "s \<noteq> []" "\<not> isWhiteSpace (last s)"
  shows "trimEnd (s @ b) = s"
proof -
  have "dropWhile isWhiteSpace (rev b @ rev s) = rev s"
    using assms by (simp add: dropWhile_blank blank_rev dropWhile_solid hd_rev)
  then show ?thesis by (simp add: trimEnd_def)
qed

lemma trim_around:
  assumes "blank a" "blank b" "s \<noteq> []" "\<not> isWhiteSpace (hd s)" "\<not> isWhiteSpace (last s)"
  shows "trim (a @ s @ b) = s"
proof -
  have "s @ b \<noteq> []" "\<not> isWhiteSpace (hd (s @ b))" using assms by simp_all
  then have "trimStart (a @ s @ b) = s @ b"
    using assms(1) trimStart_around [of a "s @ b"] by simp
  then show ?thesis using assms by (simp add: trim_def trimEnd_around)
qed

lemma bracket_solid: "\<not> isWhiteSpace CHR ''[''" "\<not> isWhiteSpace CHR '']''" "\<not> isWhiteSpace CHR 0x60"
  by (simp_all add: isWhiteSpace_def)

lemma fenced_ends:
  "fenced tag w1 P w2 \<noteq> []" "hd (fenced tag w1 P w2) = CHR 0x60"
  "last (fenced tag w1 P w2) = CHR 0x60"
  by (simp_all add: fenced_def)

lemma trim_fenced:
  "blank a \<Longrightarrow> blank b \<Longrightarrow> trim (a @ fenced tag w1 P w2 @ b) = fenced tag w1 P w2"
  by (rule trim_around) (simp_all add: fenced_ends bracket_solid)

lemma replace_closing_fence:
  assumes "arrayPayload P" "blank w2"
  shows "replace_closing (P @ w2 @ ''```'') = P"
proof -
  have "startsWith (rev (P @ w2 @ ''```'')) (rev ''```'')"
    by (simp add: startsWith_iff)
  moreover have "take (length (P @ w2 @ ''```'') - 3) (P @ w2 @ ''```'') = P @ w2"
    by simp
  moreover have "trimEnd (P @ w2) = P"
    using assms by (simp add: trimEnd_around arrayPayload_def bracket_solid)
  ultimately show ?thesis by (simp only: replace_closing_def if_True)
qed

lemma replace_opening_fence:
  assumes "arrayPayload P" "blank w1"
  shows "replace_opening fence (fence @ w1 @ P @ rest) = P @ rest"
proof -
  have "dropWhile isWhiteSpace (w1 @ P @ rest) = P @ rest"
    using assms by (simp add: dropWhile_blank dropWhile_solid arrayPayload_def bracket_solid)
  then show ?thesis by (simp add: replace_opening_def startsWith_append)
qed

lemma cleaned_json_fence:
  assumes "arrayPayload P" "blank w1" "blank w2" "blank a" "blank b"
  shows "cleanedResponse (a @ fenced ''json'' w1 P w2 @ b) = P"
proof -
  have t: "trim (a @ fenced ''json'' w1 P w2 @ b) = ''```json'' @ w1 @ P @ w2 @ ''```''"
    using assms by (simp add: trim_fenced) (simp add: fenced_def)
  have s: "startsWith (''```json'' @ w1 @ P @ w2 @ ''```'') ''```json''"
    by (rule startsWith_append)
  have "replace_closing (replace_opening ''```json'' (''```json'' @ w1 @ P @ w2 @ ''```'')) = P"
    using assms by (simp only: replace_opening_fence replace_closing_fence)
  with t s show ?thesis by (simp only: cleanedResponse_def Let_def if_True)
qed

lemma blank_payload_no_json:
  assumes "arrayPayload P" "blank w1"
  shows "\<not> startsWith (w1 @ P @ rest) ''json''"
proof
  assume "startsWith (w1 @ P @ rest) ''json''"
  then have h: "hd (w1 @ P @ rest) = CHR ''j''" by (auto dest: startsWith_hd)
  show False
  proof (cases w1)
    case Nil
    with h assms(1) show False by (simp add: arrayPayload_def)
  next
    case (Cons c cs)
    with h assms(2) show False by (simp add: blank_def isWhiteSpace_def)
  qed
qed

lemma cleaned_plain_fence:
  assumes "arrayPayload P" "blank w1" "blank w2" "blank a" "blank b"
  shows "cleanedResponse (a @ fenced [] w1 P w2 @ b) = P"
proof -
  have t: "trim (a @ fenced [] w1 P w2 @ b) = ''```'' @ w1 @ P @ w2 @ ''```''"
    using assms by (simp add: trim_fenced) (simp add: fenced_def)
  have n: "\<not> startsWith (''```'' @ w1 @ P @ w2 @ ''```'') ''```json''"
    using blank_payload_no_json [OF assms(1,2)] by simp
  have s: "startsWith (''```'' @ w1 @ P @ w2 @ ''```'') ''```''"
    by (rule startsWith_append)
  have "replace_closing (replace_opening ''```'' (''```'' @ w1 @ P @ w2 @ ''```'')) = P"
    using assms by (simp only: replace_opening_fence replace_closing_fence)
  with t n s show ?thesis by (simp only: cleanedResponse_def Let_def if_True if_False)
qed

lemma cleaned_payload:
  assumes "arrayPayload P"
  shows "cleanedResponse P = P"
proof -
  have t: "trim P = P"
    using assms trim_around [of "[]" "[]" P] by (simp add: blank_def arrayPayload_def bracket_solid)
  have "\<not> startsWith P ''```json''" "\<not> startsWith P ''```''"
    using assms by (auto dest: startsWith_hd simp: arrayPayload_def)
  with t show ?thesis by (simp add: cleanedResponse_def)
qed

section \<open>What generateExpenseInsights returns\<close>

lemma formatInsight_solid:
  "\<not> nullish insight \<Longrightarrow> \<exists>formatted. formatInsight now index insight = Inr formatted"
  by (simp add: formatInsight_def)

lemma formatInsight_fields:
  assumes "formatInsight now index insight = Inr formatted"
  shows "insight_id formatted = ''ai-'' @ toString now @ ''-'' @ decimal index"
    and "insight_type formatted = or_else (property insight ''type'') (JString ''info'')"
    and "insight_title formatted = or_else (property insight ''title'') (JString ''AI Insight'')"
    and "insight_message formatted =
           or_else (property insight ''message'') (JString ''Analysis complete'')"
    and "insight_action formatted = property insight ''action''"
    and "insight_confidence formatted = or_else (property insight ''confidence'') (JNumber 0.8)"
  using assms by (auto simp: formatInsight_def split: if_splits)

lemma formatInsights_solid:
  assumes "\<forall>e \<in> set elements. \<not> nullish e"
  shows "\<exists>insights. formatInsights Date_now index elements = Inr insights
           \<and> length insights = length elements
           \<and> (\<forall>i < length elements.
                 formatInsight (Date_now (index + i)) (index + i) (elements ! i) = Inr (insights ! i))"
  using assms
proof (induction elements arbitrary: index)
  case Nil
  then show ?case by simp
next
  case (Cons insight rest)
  obtain formatted where f: "formatInsight (Date_now index) index insight = Inr formatted"
    using Cons.prems formatInsight_solid [of insight "Date_now index" index] by auto
  obtain others where o: "formatInsights Date_now (Suc index) rest = Inr others"
    and l: "length others = length rest"
    and a: "\<forall>i < length rest.
              formatInsight (Date_now (Suc index + i)) (Suc index + i) (rest ! i) = Inr (others ! i)"
    using Cons.IH [of "Suc index"] Cons.prems by auto
  have "\<forall>i < length (insight # rest).
          formatInsight (Date_now (index + i)) (index + i) ((insight # rest) ! i)
            = Inr ((formatted # others) ! i)"
  proof (intro allI impI)
    fix i assume "i < length (insight # rest)"
    then show "formatInsight (Date_now (index + i)) (index + i) ((insight # rest) ! i)
            = Inr ((formatted # others) ! i)"
      using f a by (cases i) simp_all
  qed
  with f o l show ?case by simp
qed

lemma formatInsights_null:
  "e \<in> set elements \<Longrightarrow> nullish e \<Longrightarrow> formatInsights Date_now index elements = Inl TypeError"
proof (induction elements arbitrary: index)
  case Nil
  then show ?case by simp
next
  case (Cons insight rest)
  show ?case
  proof (cases "nullish insight")
    case True
    then show ?thesis by (simp add: formatInsight_def)
  next
    case False
    with Cons.prems have "e \<in> set rest" by auto
    then have "formatInsights Date_now (Suc index) rest = Inl TypeError"
      using Cons.IH Cons.prems(2) by blast
    moreover obtain formatted where "formatInsight (Date_now index) index insight = Inr formatted"
      using False formatInsight_solid by blast
    ultimately show ?thesis by simp
  qed
qed

lemma insights_try_Rejected:
  "create (InsightsRequest (expensesSummary expenses)) = Rejected thrown
     \<Longrightarrow> generateExpenseInsights_try create JSON_parse Date_now expenses = Inl thrown"
  by (simp add: generateExpenseInsights_try_def await_content_Rejected)

lemma insights_try_no_choice:
  "create (InsightsRequest (expensesSummary expenses)) = Resolved []
     \<Longrightarrow> generateExpenseInsights_try create JSON_parse Date_now expenses = Inl TypeError"
  by (simp add: generateExpenseInsights_try_def await_content_empty)

lemma insights_try_null:
  "create (InsightsRequest (expensesSummary expenses)) = Resolved (None # rest)
     \<Longrightarrow> generateExpenseInsights_try create JSON_parse Date_now expenses
           = Inl (Error ''No response from AI'')"
  by (simp add: generateExpenseInsights_try_def await_content_Resolved)

lemma insights_try_empty:
  "create (InsightsRequest (expensesSummary expenses)) = Resolved (Some [] # rest)
     \<Longrightarrow> generateExpenseInsights_try create JSON_parse Date_now expenses
           = Inl (Error ''No response from AI'')"
  by (simp add: generateExpenseInsights_try_def await_content_Resolved)

lemma insights_try_response:
  "create (InsightsRequest (expensesSummary expenses)) = Resolved (Some response # rest)
     \<Longrightarrow> response \<noteq> []
     \<Longrightarrow> generateExpenseInsights_try create JSON_parse Date_now expenses
           = parseInsights JSON_parse Date_now (cleanedResponse response)"
  by (simp add: generateExpenseInsights_try_def await_content_Resolved)

lemma parseInsights_failure:
  "JSON_parse cleaned = None \<Longrightarrow> parseInsights JSON_parse Date_now cleaned = Inl SyntaxError"
  by (simp add: parseInsights_def)

lemma parseInsights_array:
  "JSON_parse cleaned = Some (JArray elements)
     \<Longrightarrow> parseInsights JSON_parse Date_now cleaned = formatInsights Date_now 0 elements"
  by (simp add: parseInsights_def)

lemma parseInsights_no_array:
  "JSON_parse cleaned = Some v \<Longrightarrow> \<forall>elements. v \<noteq> JArray elements
     \<Longrightarrow> parseInsights JSON_parse Date_now cleaned = Inl TypeError"
  by (cases v) (simp_all add: parseInsights_def)

lemma insights_catch_rate_limit:
  "isRateLimit thrown \<Longrightarrow>
     \<exists>insight. generateExpenseInsights_catch thrown = Inr [insight]
       \<and> insight_id insight = ''fallback-rate-limit''
       \<and> insight_type insight = JString ''warning''
       \<and> insight_confidence insight = JNumber 0.7"
  by (simp add: generateExpenseInsights_catch_def)

lemma insights_catch_other:
  "\<not> isRateLimit thrown \<Longrightarrow>
     \<exists>insight. generateExpenseInsights_catch thrown = Inr [insight]
       \<and> insight_id insight = ''fallback-1''
       \<and> insight_type insight = JString ''info''
       \<and> insight_confidence insight = JNumber 0.5"
  by (simp add: generateExpenseInsights_catch_def)

lemma generateExpenseInsights_returns:
  "\<exists>insights. generateExpenseInsights create JSON_parse Date_now expenses = Inr insights"
  unfolding generateExpenseInsights_def
  by (rule try_catch_returns) (simp add: generateExpenseInsights_catch_def)

lemma insights_success:
  assumes "create (InsightsRequest (expensesSummary expenses)) = Resolved (Some response # rest)"
    and "response \<noteq> []"
    and "JSON_parse (cleanedResponse response) = Some (JArray elements)"
    and "\<forall>e \<in> set elements. \<not> nullish e"
  shows "\<exists>insights. generateExpenseInsights create JSON_parse Date_now expenses = Inr insights
           \<and> length insights = length elements
           \<and> (\<forall>i < length elements.
                 formatInsight (Date_now i) i (elements ! i) = Inr (insights ! i))"
proof -
  have "generateExpenseInsights_try create JSON_parse Date_now expenses
          = formatInsights Date_now 0 elements"
    using assms(1,2,3)
      insights_try_response [of create expenses response rest JSON_parse Date_now]
    by (simp add: parseInsights_array)
  then have "generateExpenseInsights create JSON_parse Date_now expenses
          = try_catch (formatInsights Date_now 0 elements) generateExpenseInsights_catch"
    by (simp add: generateExpenseInsights_def)
  then show ?thesis
    using formatInsights_solid [OF assms(4), of Date_now 0] by (auto simp: try_catch_Inr)
qed

text \<open>
  Claim C2. Whatever is thrown inside the \<^verbatim>\<open>try\<close> block of
  \<^verbatim>\<open>generateExpenseInsights\<close>, the function returns exactly one insight: with the
  identifier \<^verbatim>\<open>fallback-rate-limit\<close>, the type \<^verbatim>\<open>warning\<close> and the confidence 0.7 when
  the \<^verbatim>\<open>status\<close> or the \<^verbatim>\<open>code\<close> of the thrown value is the number 429, and with the
  identifier \<^verbatim>\<open>fallback-1\<close>, the type \<^verbatim>\<open>info\<close> and the confidence 0.5 otherwise. A
  rejected remote call, a missing or empty content and a text that does not parse all
  throw inside the block, the last two with values that are no rate limit. In no case
  does the function throw to its caller.
\<close>

theorem insights_failure_fallback:
  "(generateExpenseInsights_try create JSON_parse Date_now expenses = Inl thrown
      \<and> isRateLimit thrown
      \<longrightarrow> (\<exists>insight. generateExpenseInsights create JSON_parse Date_now expenses = Inr [insight]
             \<and> insight_id insight = ''fallback-rate-limit''
             \<and> insight_type insight = JString ''warning''
             \<and> insight_confidence insight = JNumber 0.7))
   \<and> (generateExpenseInsights_try create JSON_parse Date_now expenses = Inl thrown
      \<and> \<not> isRateLimit thrown
      \<longrightarrow> (\<exists>insight. generateExpenseInsights create JSON_parse Date_now expenses = Inr [insight]
             \<and> insight_id insight = ''fallback-1''
             \<and> insight_type insight = JString ''info''
             \<and> insight_confidence insight = JNumber 0.5))
   \<and> (create (InsightsRequest (expensesSummary expenses)) = Rejected thrown
      \<longrightarrow> generateExpenseInsights_try create JSON_parse Date_now expenses = Inl thrown)
   \<and> (create (InsightsRequest (expensesSummary expenses)) = Resolved (None # rest)
        \<or> create (InsightsRequest (expensesSummary expenses)) = Resolved (Some [] # rest)
      \<longrightarrow> generateExpenseInsights_try create JSON_parse Date_now expenses
            = Inl (Error ''No response from AI''))
   \<and> (create (InsightsRequest (expensesSummary expenses)) = Resolved (Some response # rest)
        \<and> response \<noteq> [] \<and> JSON_parse (cleanedResponse response) = None
      \<longrightarrow> generateExpenseInsights_try create JSON_parse Date_now expenses = Inl SyntaxError)
   \<and> \<not> isRateLimit (Error ''No response from AI'') \<and> \<not> isRateLimit SyntaxError
   \<and> \<not> isRateLimit TypeError
   \<and> (\<exists>insights. generateExpenseInsights create JSON_parse Date_now expenses = Inr insights)"
proof (intro conjI impI)
  assume "generateExpenseInsights_try create JSON_parse Date_now expenses = Inl thrown
      \<and> isRateLimit thrown"
  then show "\<exists>insight. generateExpenseInsights create JSON_parse Date_now expenses = Inr [insight]
             \<and> insight_id insight = ''fallback-rate-limit''
             \<and> insight_type insight = JString ''warning''
             \<and> insight_confidence insight = JNumber 0.7"
    using insights_catch_rate_limit [of thrown]
    by (simp add: generateExpenseInsights_def try_catch_Inl)
next
  assume "generateExpenseInsights_try create JSON_parse Date_now expenses = Inl thrown
      \<and> \<not> isRateLimit thrown"
  then show "\<exists>insight. generateExpenseInsights create JSON_parse Date_now expenses = Inr [insight]
             \<and> insight_id insight = ''fallback-1''
             \<and> insight_type insight = JString ''info''
             \<and> insight_confidence insight = JNumber 0.5"
    using insights_catch_other [of thrown]
    by (simp add: generateExpenseInsights_def try_catch_Inl)
next
  assume "create (InsightsRequest (expensesSummary expenses)) = Rejected thrown"
  then show "generateExpenseInsights_try create JSON_parse Date_now expenses = Inl thrown"
    by (rule insights_try_Rejected)
next
  assume "create (InsightsRequest (expensesSummary expenses)) = Resolved (None # rest)
        \<or> create (InsightsRequest (expensesSummary expenses)) = Resolved (Some [] # rest)"
  then show "generateExpenseInsights_try create JSON_parse Date_now expenses
            = Inl (Error ''No response from AI'')"
    using insights_try_null [of create expenses rest JSON_parse Date_now]
      insights_try_empty [of create expenses rest JSON_parse Date_now] by blast
next
  assume "create (InsightsRequest (expensesSummary expenses)) = Resolved (Some response # rest)
        \<and> response \<noteq> [] \<and> JSON_parse (cleanedResponse response) = None"
  then show "generateExpenseInsights_try create JSON_parse Date_now expenses = Inl SyntaxError"
    using insights_try_response [of create expenses response rest JSON_parse Date_now]
    by (simp add: parseInsights_failure)
next
  show "\<exists>insights. generateExpenseInsights create JSON_parse Date_now expenses = Inr insights"
    by (rule generateExpenseInsights_returns)
qed (simp_all only: raised_not_rate_limit not_False_eq_True)

theorem insights_failure_fallback_witness:
  "isRateLimit (JObject [(''status'', JNumber 429)])
   \<and> (\<exists>insight. generateExpenseInsights (rejects (JObject [(''status'', JNumber 429)]))
                   (parses tipPayload tipParsed) ticking [] = Inr [insight]
         \<and> insight_id insight = ''fallback-rate-limit''
         \<and> insight_type insight = JString ''warning''
         \<and> insight_confidence insight = JNumber 0.7)
   \<and> (\<exists>insight. generateExpenseInsights (resolves [Some ''no JSON here''])
                   (parses tipPayload tipParsed) ticking [] = Inr [insight]
         \<and> insight_id insight = ''fallback-1''
         \<and> insight_type insight = JString ''info''
         \<and> insight_confidence insight = JNumber 0.5)"
proof -
  let ?e = "JObject [(''status'', JNumber 429)]"
  let ?p = "parses tipPayload tipParsed"
  note r = insights_failure_fallback [of "rejects ?e" ?p ticking "[]" ?e]
  have "generateExpenseInsights_try (rejects ?e) ?p ticking [] = Inl ?e"
    using r by (simp add: rejects_def)
  with r isRateLimit_examples(1)
  have a: "\<exists>insight. generateExpenseInsights (rejects ?e) ?p ticking [] = Inr [insight]
         \<and> insight_id insight = ''fallback-rate-limit''
         \<and> insight_type insight = JString ''warning''
         \<and> insight_confidence insight = JNumber 0.7"
    by blast
  note s = insights_failure_fallback
    [of "resolves [Some ''no JSON here'']" ?p ticking "[]" SyntaxError "[]" "''no JSON here''"]
  have c: "cleanedResponse ''no JSON here'' = ''no JSON here''"
    by code_simp
  have "tipPayload \<noteq> ''no JSON here''"
    by (simp add: tipPayload_def)
  then have "?p (cleanedResponse ''no JSON here'') = None"
    by (simp add: c parses_def)
  then have "generateExpenseInsights_try (resolves [Some ''no JSON here'']) ?p ticking []
      = Inl SyntaxError"
    using s by (simp add: resolves_def)
  with s have b: "\<exists>insight. generateExpenseInsights (resolves [Some ''no JSON here'']) ?p ticking []
         = Inr [insight]
         \<and> insight_id insight = ''fallback-1''
         \<and> insight_type insight = JString ''info''
         \<and> insight_confidence insight = JNumber 0.5"
    by blast
  from a b isRateLimit_examples(1) show ?thesis by blast
qed

lemma tipPayload_array: "arrayPayload tipPayload"
  by (simp add: arrayPayload_def tipPayload_def)

lemma falsyPayload_array: "arrayPayload falsyPayload"
  by (simp add: arrayPayload_def falsyPayload_def)

lemma newline_blank: "blank [CHR 0x0A]" "blank []"
  by (simp_all add: blank_def isWhiteSpace_def)

lemma arrayPayload_not_empty: "arrayPayload P \<Longrightarrow> P \<noteq> []"
  by (simp add: arrayPayload_def)

lemma formatInsight_clock:
  "map_sum id fields_only (formatInsight now index insight)
     = map_sum id fields_only (formatInsight now' index insight)"
  by (simp add: formatInsight_def fields_only_def)

lemma formatInsights_clock:
  "insight_fields (formatInsights Date_now index elements)
     = insight_fields (formatInsights Date_now' index elements)"
proof (induction elements arbitrary: index)
  case Nil
  then show ?case by (simp add: insight_fields_def)
next
  case (Cons insight rest)
  show ?case
    using formatInsight_clock [of "Date_now index" index insight "Date_now' index"]
      Cons.IH [of "Suc index"]
    by (auto simp: insight_fields_def split: sum.splits)
qed

lemma parseInsights_clock:
  "insight_fields (parseInsights JSON_parse Date_now cleaned)
     = insight_fields (parseInsights JSON_parse Date_now' cleaned)"
proof (cases "JSON_parse cleaned")
  case None
  then show ?thesis by (simp add: parseInsights_def)
next
  case (Some v)
  then show ?thesis
    using formatInsights_clock [of Date_now 0 _ Date_now']
    by (cases v) (simp_all add: parseInsights_def)
qed

lemma try_catch_fields:
  assumes "insight_fields body = insight_fields body'"
  shows "insight_fields (try_catch body handler) = insight_fields (try_catch body' handler)"
  using assms by (cases body; cases body') (simp_all add: insight_fields_def try_catch_def)

text \<open>
  Claim C6. For every text \<open>P\<close> of a JSON array, a response that is \<open>P\<close> in Markdown
  code fences (an opening fence with the tag \<^verbatim>\<open>json\<close> or with no tag, the payload, a
  closing fence, with any white space between the fences and the payload and around
  the whole) is cleaned to \<open>P\<close> itself before it is parsed, as the response \<open>P\<close> is. So
  \<^verbatim>\<open>generateExpenseInsights\<close> returns for the fenced response what it returns for the
  unfenced one: both results are the formatted parse of \<open>P\<close>. When the two calls read
  different clocks, their results still have the same \<^verbatim>\<open>type\<close>, \<^verbatim>\<open>title\<close>,
  \<^verbatim>\<open>message\<close>, \<^verbatim>\<open>action\<close> and \<^verbatim>\<open>confidence\<close> fields.
\<close>

theorem fenced_response_parses_alike:
  assumes "arrayPayload P" and "blank w1" and "blank w2" and "blank a" and "blank b"
    and "tag = ''json'' \<or> tag = []"
    and "create (InsightsRequest (expensesSummary expenses))
           = Resolved (Some (a @ fenced tag w1 P w2 @ b) # rest)"
    and "create' (InsightsRequest (expensesSummary expenses)) = Resolved (Some P # rest')"
  shows "cleanedResponse (a @ fenced tag w1 P w2 @ b) = P
     \<and> cleanedResponse P = P
     \<and> generateExpenseInsights create JSON_parse Date_now expenses
         = try_catch (parseInsights JSON_parse Date_now P) generateExpenseInsights_catch
     \<and> generateExpenseInsights create JSON_parse Date_now expenses
         = generateExpenseInsights create' JSON_parse Date_now expenses
     \<and> insight_fields (generateExpenseInsights create JSON_parse Date_now expenses)
         = insight_fields (generateExpenseInsights create' JSON_parse Date_now' expenses)"
proof -
  have f: "cleanedResponse (a @ fenced tag w1 P w2 @ b) = P"
    using assms(1-6) cleaned_json_fence [of P w1 w2 a b] cleaned_plain_fence [of P w1 w2 a b]
    by blast
  have p: "cleanedResponse P = P"
    using assms(1) by (rule cleaned_payload)
  have n: "a @ fenced tag w1 P w2 @ b \<noteq> []"
    by (simp add: fenced_ends)
  have "generateExpenseInsights_try create JSON_parse Date_now expenses
      = parseInsights JSON_parse Date_now (cleanedResponse (a @ fenced tag w1 P w2 @ b))"
    using assms(7) n by (rule insights_try_response)
  with f have x: "generateExpenseInsights create JSON_parse Date_now expenses
      = try_catch (parseInsights JSON_parse Date_now P) generateExpenseInsights_catch"
    by (simp add: generateExpenseInsights_def)
  have "generateExpenseInsights_try create' JSON_parse Date_now expenses
      = parseInsights JSON_parse Date_now (cleanedResponse P)"
    using assms(8) arrayPayload_not_empty [OF assms(1)] by (rule insights_try_response)
  with p have y: "generateExpenseInsights create' JSON_parse Date_now expenses
      = try_catch (parseInsights JSON_parse Date_now P) generateExpenseInsights_catch"
    by (simp add: generateExpenseInsights_def)
  from x y have e: "generateExpenseInsights create JSON_parse Date_now expenses
         = generateExpenseInsights create' JSON_parse Date_now expenses"
    by (rule trans [OF _ sym])
  have "generateExpenseInsights_try create' JSON_parse Date_now' expenses
      = parseInsights JSON_parse Date_now' (cleanedResponse P)"
    using assms(8) arrayPayload_not_empty [OF assms(1)] by (rule insights_try_response)
  with p have z: "generateExpenseInsights create' JSON_parse Date_now' expenses
      = try_catch (parseInsights JSON_parse Date_now' P) generateExpenseInsights_catch"
    by (simp add: generateExpenseInsights_def)
  have c: "insight_fields (generateExpenseInsights create JSON_parse Date_now expenses)
         = insight_fields (generateExpenseInsights create' JSON_parse Date_now' expenses)"
    unfolding x z by (rule try_catch_fields [OF parseInsights_clock])
  from f p x e c show ?thesis by (intro conjI)
qed

theorem fenced_response_parses_alike_witness:
  "arrayPayload tipPayload \<and> blank [CHR 0x0A]
   \<and> cleanedResponse (fenced ''json'' [CHR 0x0A] tipPayload [CHR 0x0A]) = tipPayload
   \<and> cleanedResponse (fenced [] [CHR 0x0A] tipPayload [CHR 0x0A]) = tipPayload
   \<and> generateExpenseInsights (resolves [Some (fenced ''json'' [CHR 0x0A] tipPayload [CHR 0x0A])])
         (parses tipPayload tipParsed) ticking []
       = generateExpenseInsights (resolves [Some tipPayload]) (parses tipPayload tipParsed) ticking []
   \<and> generateExpenseInsights (resolves [Some (fenced [] [CHR 0x0A] tipPayload [CHR 0x0A])])
         (parses tipPayload tipParsed) ticking []
       = generateExpenseInsights (resolves [Some tipPayload]) (parses tipPayload tipParsed) ticking []
   \<and> insight_fields
         (generateExpenseInsights (resolves [Some (fenced ''json'' [CHR 0x0A] tipPayload [CHR 0x0A])])
           (parses tipPayload tipParsed) ticking [])
       = insight_fields
           (generateExpenseInsights (resolves [Some tipPayload]) (parses tipPayload tipParsed)
             (ticking \<circ> Suc) [])"
proof -
  let ?nl = "[CHR 0x0A]"
  let ?p = "parses tipPayload tipParsed"
  have r: "resolves [Some (fenced tag ?nl tipPayload ?nl)]
             (InsightsRequest (expensesSummary []))
           = Resolved (Some ([] @ fenced tag ?nl tipPayload ?nl @ []) # [])" for tag
    by (simp add: resolves_def)
  have u: "resolves [Some tipPayload] (InsightsRequest (expensesSummary []))
           = Resolved (Some tipPayload # [])"
    by (simp add: resolves_def)
  have tj: "''json'' = ''json'' \<or> ''json'' = []" by simp
  have tn: "[] = ''json'' \<or> ([]::string) = []" by simp
  note j = fenced_response_parses_alike
    [where create = "resolves [Some (fenced ''json'' ?nl tipPayload ?nl)]"
       and create' = "resolves [Some tipPayload]" and expenses = "[]" and tag = "''json''"
       and JSON_parse = ?p and Date_now = ticking and Date_now' = "ticking \<circ> Suc",
     OF tipPayload_array newline_blank(1) newline_blank(1) newline_blank(2) newline_blank(2)
       tj r u, simplified append_Nil append_Nil2]
  note n = fenced_response_parses_alike
    [where create = "resolves [Some (fenced [] ?nl tipPayload ?nl)]"
       and create' = "resolves [Some tipPayload]" and expenses = "[]" and tag = "[]"
       and JSON_parse = ?p and Date_now = ticking and Date_now' = "ticking \<circ> Suc",
     OF tipPayload_array newline_blank(1) newline_blank(1) newline_blank(2) newline_blank(2)
       tn r u, simplified append_Nil append_Nil2]
  from j n tipPayload_array newline_blank(1) show ?thesis by blast
qed

lemma formatted_fills_missing:
  assumes "formatInsight now index insight = Inr formatted"
  shows "fills_missing insight formatted"
  using formatInsight_fields [OF assms] by (simp add: fills_missing_def or_else_def)

lemma formatted_fills_falsy:
  assumes "formatInsight now index insight = Inr formatted"
  shows "fills_falsy insight formatted"
  using formatInsight_fields [OF assms] by (simp add: fills_falsy_def or_else_def)

lemma formatted_keeps_truthy:
  assumes "formatInsight now index insight = Inr formatted"
  shows "keeps_truthy insight formatted"
  using formatInsight_fields [OF assms] by (simp add: keeps_truthy_def or_else_def)

lemma nullPayload_array: "arrayPayload nullPayload"
  by (simp add: arrayPayload_def nullPayload_def)

lemma zeroNullPayload_array: "arrayPayload zeroNullPayload"
  by (simp add: arrayPayload_def zeroNullPayload_def)

lemma insights_null_element:
  assumes "create (InsightsRequest (expensesSummary expenses)) = Resolved (Some response # rest)"
    and "response \<noteq> []"
    and "JSON_parse (cleanedResponse response) = Some (JArray elements)"
    and "e \<in> set elements" and "nullish e"
  shows "generateExpenseInsights create JSON_parse Date_now expenses
           = generateExpenseInsights_catch TypeError"
proof -
  have "generateExpenseInsights_try create JSON_parse Date_now expenses
          = formatInsights Date_now 0 elements"
    using assms(1,2,3)
      insights_try_response [of create expenses response rest JSON_parse Date_now]
    by (simp add: parseInsights_array)
  also have "\<dots> = Inl TypeError"
    using assms(4,5) by (rule formatInsights_null)
  finally show ?thesis
    by (simp add: generateExpenseInsights_def try_catch_Inl)
qed

lemma insights_catch_TypeError:
  "generateExpenseInsights_catch TypeError =
     Inr [\<lparr> insight_id = ''fallback-1'',
              insight_type = JString ''info'',
              insight_title = JString ''AI Analysis Unavailable'',
              insight_message = JString ''Unable to generate personalized insights at this time. Please try again later.'',
              insight_action = JString ''Refresh insights'',
              insight_confidence = JNumber 0.5 \<rparr>]"
  using raised_not_rate_limit(1) by (simp add: generateExpenseInsights_catch_def)

lemma insights_null_fallback:
  assumes "create (InsightsRequest (expensesSummary expenses)) = Resolved (Some response # rest)
     \<and> response \<noteq> [] \<and> JSON_parse (cleanedResponse response) = Some (JArray elements)
     \<and> (\<exists>e \<in> set elements. nullish e)"
  shows "\<exists>insight. generateExpenseInsights create JSON_parse Date_now expenses = Inr [insight]
           \<and> insight_id insight = ''fallback-1''
           \<and> insight_type insight = JString ''info''
           \<and> insight_confidence insight = JNumber 0.5"
proof -
  from assms obtain e where "e \<in> set elements" and "nullish e" by blast
  then have "generateExpenseInsights create JSON_parse Date_now expenses
           = generateExpenseInsights_catch TypeError"
    using assms insights_null_element [of create expenses response rest JSON_parse elements e]
    by blast
  then show ?thesis
    by (simp add: insights_catch_TypeError)
qed

text \<open>
  Claim C7, as the code has it. When the response parses to an array none of whose
  elements is \<^verbatim>\<open>null\<close>, \<^verbatim>\<open>generateExpenseInsights\<close> returns one insight for each
  element, in order, and fills the fields an element lacks: a missing \<^verbatim>\<open>type\<close> becomes
  \<^verbatim>\<open>info\<close>, a missing \<^verbatim>\<open>title\<close> becomes \<^verbatim>\<open>AI Insight\<close>, a missing \<^verbatim>\<open>message\<close>
  becomes \<^verbatim>\<open>Analysis complete\<close> and a missing \<^verbatim>\<open>confidence\<close> becomes 0.8, while a
  field with a truthy value keeps it. In particular an element without \<^verbatim>\<open>confidence\<close>
  gives an insight of confidence 0.8. When an element of the array is \<^verbatim>\<open>null\<close>, the
  callback throws on it and the function returns the one insight \<^verbatim>\<open>fallback-1\<close> of
  confidence 0.5, whatever the other elements are. A field is missing from an object
  that has no property of that name.
\<close>

theorem missing_fields_defaulted:
  "(create (InsightsRequest (expensesSummary expenses)) = Resolved (Some response # rest)
     \<and> response \<noteq> [] \<and> JSON_parse (cleanedResponse response) = Some (JArray elements)
     \<and> (\<forall>e \<in> set elements. \<not> nullish e)
   \<longrightarrow> (\<exists>insights. generateExpenseInsights create JSON_parse Date_now expenses = Inr insights
        \<and> length insights = length elements
        \<and> (\<forall>i < length elements.
              fills_missing (elements ! i) (insights ! i)
              \<and> keeps_truthy (elements ! i) (insights ! i)
              \<and> (property (elements ! i) ''confidence'' = JUndefined
                   \<longrightarrow> insight_confidence (insights ! i) = JNumber 0.8))))
   \<and> (create (InsightsRequest (expensesSummary expenses)) = Resolved (Some response # rest)
     \<and> response \<noteq> [] \<and> JSON_parse (cleanedResponse response) = Some (JArray elements)
     \<and> (\<exists>e \<in> set elements. nullish e)
   \<longrightarrow> (\<exists>insight. generateExpenseInsights create JSON_parse Date_now expenses = Inr [insight]
        \<and> insight_id insight = ''fallback-1''
        \<and> insight_type insight = JString ''info''
        \<and> insight_confidence insight = JNumber 0.5))
   \<and> (\<forall>kvs key. map_of kvs key = None \<longrightarrow> property (JObject kvs) key = JUndefined)"
proof (intro conjI impI)
  assume h: "create (InsightsRequest (expensesSummary expenses)) = Resolved (Some response # rest)
     \<and> response \<noteq> [] \<and> JSON_parse (cleanedResponse response) = Some (JArray elements)
     \<and> (\<forall>e \<in> set elements. \<not> nullish e)"
  have "\<exists>insights. generateExpenseInsights create JSON_parse Date_now expenses = Inr insights
           \<and> length insights = length elements
           \<and> (\<forall>i < length elements.
                 formatInsight (Date_now i) i (elements ! i) = Inr (insights ! i))"
    using h by (intro insights_success [of create expenses response rest JSON_parse elements]) simp_all
  then obtain insights
    where g: "generateExpenseInsights create JSON_parse Date_now expenses = Inr insights"
      and l: "length insights = length elements"
      and f: "\<forall>i < length elements.
                formatInsight (Date_now i) i (elements ! i) = Inr (insights ! i)"
    by (elim exE conjE)
  have q: "\<forall>i < length elements.
              fills_missing (elements ! i) (insights ! i)
              \<and> keeps_truthy (elements ! i) (insights ! i)
              \<and> (property (elements ! i) ''confidence'' = JUndefined
                   \<longrightarrow> insight_confidence (insights ! i) = JNumber 0.8)"
  proof (intro allI impI conjI)
    fix i assume "i < length elements"
    with f have x: "formatInsight (Date_now i) i (elements ! i) = Inr (insights ! i)" by simp
    show "fills_missing (elements ! i) (insights ! i)"
      by (rule formatted_fills_missing [OF x])
    show "keeps_truthy (elements ! i) (insights ! i)"
      by (rule formatted_keeps_truthy [OF x])
    assume "property (elements ! i) ''confidence'' = JUndefined"
    then show "insight_confidence (insights ! i) = JNumber 0.8"
      using formatted_fills_missing [OF x] by (simp add: fills_missing_def)
  qed
  show "\<exists>insights. generateExpenseInsights create JSON_parse Date_now expenses = Inr insights
        \<and> length insights = length elements
        \<and> (\<forall>i < length elements.
              fills_missing (elements ! i) (insights ! i)
              \<and> keeps_truthy (elements ! i) (insights ! i)
              \<and> (property (elements ! i) ''confidence'' = JUndefined
                   \<longrightarrow> insight_confidence (insights ! i) = JNumber 0.8))"
    by (rule exI [of _ insights]) (intro conjI g l q)
next
  assume "create (InsightsRequest (expensesSummary expenses)) = Resolved (Some response # rest)
     \<and> response \<noteq> [] \<and> JSON_parse (cleanedResponse response) = Some (JArray elements)
     \<and> (\<exists>e \<in> set elements. nullish e)"
  then show "\<exists>insight. generateExpenseInsights create JSON_parse Date_now expenses = Inr [insight]
        \<and> insight_id insight = ''fallback-1''
        \<and> insight_type insight = JString ''info''
        \<and> insight_confidence insight = JNumber 0.5"
    by (rule insights_null_fallback)
next
  show "\<forall>kvs key. map_of kvs key = None \<longrightarrow> property (JObject kvs) key = JUndefined"
    by simp
qed

theorem missing_fields_defaulted_witness:
  "(\<exists>insights.
     generateExpenseInsights (resolves [Some tipPayload]) (parses tipPayload tipParsed) ticking []
       = Inr insights
     \<and> length insights = 1
     \<and> insight_type (insights ! 0) = JString ''tip''
     \<and> insight_title (insights ! 0) = JString ''Cook at home''
     \<and> insight_message (insights ! 0) = JString ''Analysis complete''
     \<and> insight_confidence (insights ! 0) = JNumber 0.8)
   \<and> (\<exists>insight.
     generateExpenseInsights (resolves [Some nullPayload]) (parses nullPayload nullParsed) ticking []
       = Inr [insight]
     \<and> insight_id insight = ''fallback-1''
     \<and> insight_type insight = JString ''info''
     \<and> insight_confidence insight = JNumber 0.5)"
proof -
  let ?e = "JObject [(''type'', JString ''tip''), (''title'', JString ''Cook at home'')]"
  let ?p = "parses tipPayload tipParsed"
  have h: "resolves [Some tipPayload] (InsightsRequest (expensesSummary []))
        = Resolved (Some tipPayload # [])
     \<and> tipPayload \<noteq> [] \<and> ?p (cleanedResponse tipPayload) = Some (JArray [?e])
     \<and> (\<forall>e \<in> set [?e]. \<not> nullish e)"
    using arrayPayload_not_empty [OF tipPayload_array]
    by (simp add: resolves_def cleaned_payload tipPayload_array parses_def tipParsed_def nullish_def)
  note t = missing_fields_defaulted
    [where create = "resolves [Some tipPayload]" and expenses = "[]" and response = tipPayload
       and rest = "[]" and JSON_parse = ?p and elements = "[?e]" and Date_now = ticking,
     THEN conjunct1, THEN mp, OF h]
  then obtain insights
    where g: "generateExpenseInsights (resolves [Some tipPayload]) ?p ticking [] = Inr insights"
      and l: "length insights = length [?e]"
      and q: "\<forall>i < length [?e].
              fills_missing ([?e] ! i) (insights ! i)
              \<and> keeps_truthy ([?e] ! i) (insights ! i)
              \<and> (property ([?e] ! i) ''confidence'' = JUndefined
                   \<longrightarrow> insight_confidence (insights ! i) = JNumber 0.8)"
    by (elim exE conjE)
  from q have m: "fills_missing ?e (insights ! 0)" and k: "keeps_truthy ?e (insights ! 0)"
    by simp_all
  from m have "insight_message (insights ! 0) = JString ''Analysis complete''"
    and "insight_confidence (insights ! 0) = JNumber 0.8"
    by (simp_all add: fills_missing_def)
  moreover from k have "insight_type (insights ! 0) = JString ''tip''"
    and "insight_title (insights ! 0) = JString ''Cook at home''"
    by (simp_all add: keeps_truthy_def)
  moreover from l have "length insights = 1" by simp
  ultimately have a: "\<exists>insights.
     generateExpenseInsights (resolves [Some tipPayload]) ?p ticking [] = Inr insights
     \<and> length insights = 1
     \<and> insight_type (insights ! 0) = JString ''tip''
     \<and> insight_title (insights ! 0) = JString ''Cook at home''
     \<and> insight_message (insights ! 0) = JString ''Analysis complete''
     \<and> insight_confidence (insights ! 0) = JNumber 0.8"
    using g by blast
  let ?n = "parses nullPayload nullParsed"
  have n: "resolves [Some nullPayload] (InsightsRequest (expensesSummary []))
        = Resolved (Some nullPayload # [])
     \<and> nullPayload \<noteq> [] \<and> ?n (cleanedResponse nullPayload) = Some (JArray [JObject [], JNull])
     \<and> (\<exists>e \<in> set [JObject [], JNull]. nullish e)"
    using arrayPayload_not_empty [OF nullPayload_array]
    by (simp add: resolves_def cleaned_payload nullPayload_array parses_def nullParsed_def
          nullish_def)
  note b = missing_fields_defaulted
    [where create = "resolves [Some nullPayload]" and expenses = "[]" and response = nullPayload
       and rest = "[]" and JSON_parse = ?n and elements = "[JObject [], JNull]"
       and Date_now = ticking,
     THEN conjunct2, THEN conjunct1, THEN mp, OF n]
  from a b show ?thesis by (rule conjI)
qed

text \<open>
  Claim C7 as the specification states it fails: the response \<^verbatim>\<open>[{},null]\<close> parses to
  an array whose first element lacks \<^verbatim>\<open>confidence\<close>, and no insight of confidence 0.8
  is returned for it: the result is the one insight \<^verbatim>\<open>fallback-1\<close> of confidence 0.5.
\<close>

theorem null_element_counterexample:
  "parses nullPayload nullParsed (cleanedResponse nullPayload) = Some (JArray [JObject [], JNull])
   \<and> property (JObject []) ''confidence'' = JUndefined
   \<and> generateExpenseInsights (resolves [Some nullPayload]) (parses nullPayload nullParsed) ticking []
       = Inr [\<lparr> insight_id = ''fallback-1'',
                  insight_type = JString ''info'',
                  insight_title = JString ''AI Analysis Unavailable'',
                  insight_message = JString ''Unable to generate personalized insights at this time. Please try again later.'',
                  insight_action = JString ''Refresh insights'',
                  insight_confidence = JNumber 0.5 \<rparr>]
   \<and> map_sum id (map insight_confidence)
         (generateExpenseInsights (resolves [Some nullPayload]) (parses nullPayload nullParsed)
            ticking [])
       = Inr [JNumber 0.5]"
proof -
  have p: "parses nullPayload nullParsed (cleanedResponse nullPayload)
      = Some (JArray [JObject [], JNull])"
    by (simp add: cleaned_payload nullPayload_array parses_def nullParsed_def)
  have r: "resolves [Some nullPayload] (InsightsRequest (expensesSummary []))
      = Resolved (Some nullPayload # [])"
    by (simp add: resolves_def)
  have "generateExpenseInsights (resolves [Some nullPayload]) (parses nullPayload nullParsed)
          ticking []
      = generateExpenseInsights_catch TypeError"
    using r arrayPayload_not_empty [OF nullPayload_array] p
    by (rule insights_null_element [where e = JNull]) (simp_all add: nullish_def)
  then have g: "generateExpenseInsights (resolves [Some nullPayload])
          (parses nullPayload nullParsed) ticking []
       = Inr [\<lparr> insight_id = ''fallback-1'',
                  insight_type = JString ''info'',
                  insight_title = JString ''AI Analysis Unavailable'',
                  insight_message = JString ''Unable to generate personalized insights at this time. Please try again later.'',
                  insight_action = JString ''Refresh insights'',
                  insight_confidence = JNumber 0.5 \<rparr>]"
    by (simp only: insights_catch_TypeError)
  from p g show ?thesis by simp
qed

text \<open>
  Claim C9, as the code has it. The defaults of \<^verbatim>\<open>generateExpenseInsights\<close> apply to
  every falsy value of a field, not only to a missing field: when the response parses
  to an array none of whose elements is \<^verbatim>\<open>null\<close>, an element whose \<^verbatim>\<open>confidence\<close> is
  present and 0 gives an insight of confidence 0.8, and an element whose \<^verbatim>\<open>type\<close>,
  \<^verbatim>\<open>title\<close> or \<^verbatim>\<open>message\<close> is present and the empty string gives \<^verbatim>\<open>info\<close>,
  \<^verbatim>\<open>AI Insight\<close> or \<^verbatim>\<open>Analysis complete\<close>. When an element of the array is \<^verbatim>\<open>null\<close>,
  the function returns the one insight \<^verbatim>\<open>fallback-1\<close> of confidence 0.5 and no element
  gets a default. A field is present in an object that has a property of that name,
  with the value of the property.
\<close>

theorem falsy_fields_defaulted:
  "(create (InsightsRequest (expensesSummary expenses)) = Resolved (Some response # rest)
     \<and> response \<noteq> [] \<and> JSON_parse (cleanedResponse response) = Some (JArray elements)
     \<and> (\<forall>e \<in> set elements. \<not> nullish e)
   \<longrightarrow> (\<exists>insights. generateExpenseInsights create JSON_parse Date_now expenses = Inr insights
        \<and> length insights = length elements
        \<and> (\<forall>i < length elements.
              fills_falsy (elements ! i) (insights ! i)
              \<and> (property (elements ! i) ''confidence'' = JNumber 0
                   \<longrightarrow> insight_confidence (insights ! i) = JNumber 0.8)
              \<and> (property (elements ! i) ''type'' = JString []
                   \<longrightarrow> insight_type (insights ! i) = JString ''info'')
              \<and> (property (elements ! i) ''title'' = JString []
                   \<longrightarrow> insight_title (insights ! i) = JString ''AI Insight'')
              \<and> (property (elements ! i) ''message'' = JString []
                   \<longrightarrow> insight_message (insights ! i) = JString ''Analysis complete''))))
   \<and> (create (InsightsRequest (expensesSummary expenses)) = Resolved (Some response # rest)
     \<and> response \<noteq> [] \<and> JSON_parse (cleanedResponse response) = Some (JArray elements)
     \<and> (\<exists>e \<in> set elements. nullish e)
   \<longrightarrow> (\<exists>insight. generateExpenseInsights create JSON_parse Date_now expenses = Inr [insight]
        \<and> insight_id insight = ''fallback-1''
        \<and> insight_type insight = JString ''info''
        \<and> insight_confidence insight = JNumber 0.5))
   \<and> (\<forall>kvs key v. map_of kvs key = Some v \<longrightarrow> property (JObject kvs) key = v)"
proof (intro conjI impI)
  assume h: "create (InsightsRequest (expensesSummary expenses)) = Resolved (Some response # rest)
     \<and> response \<noteq> [] \<and> JSON_parse (cleanedResponse response) = Some (JArray elements)
     \<and> (\<forall>e \<in> set elements. \<not> nullish e)"
  have "\<exists>insights. generateExpenseInsights create JSON_parse Date_now expenses = Inr insights
           \<and> length insights = length elements
           \<and> (\<forall>i < length elements.
                 formatInsight (Date_now i) i (elements ! i) = Inr (insights ! i))"
    using h by (intro insights_success [of create expenses response rest JSON_parse elements]) simp_all
  then obtain insights
    where g: "generateExpenseInsights create JSON_parse Date_now expenses = Inr insights"
      and l: "length insights = length elements"
      and f: "\<forall>i < length elements.
                formatInsight (Date_now i) i (elements ! i) = Inr (insights ! i)"
    by (elim exE conjE)
  have q: "\<forall>i < length elements.
              fills_falsy (elements ! i) (insights ! i)
              \<and> (property (elements ! i) ''confidence'' = JNumber 0
                   \<longrightarrow> insight_confidence (insights ! i) = JNumber 0.8)
              \<and> (property (elements ! i) ''type'' = JString []
                   \<longrightarrow> insight_type (insights ! i) = JString ''info'')
              \<and> (property (elements ! i) ''title'' = JString []
                   \<longrightarrow> insight_title (insights ! i) = JString ''AI Insight'')
              \<and> (property (elements ! i) ''message'' = JString []
                   \<longrightarrow> insight_message (insights ! i) = JString ''Analysis complete'')"
  proof (intro allI impI conjI)
    fix i assume "i < length elements"
    with f have x: "formatInsight (Date_now i) i (elements ! i) = Inr (insights ! i)" by simp
    note y = formatted_fills_falsy [OF x]
    show "fills_falsy (elements ! i) (insights ! i)" by (rule y)
    {
      assume "property (elements ! i) ''confidence'' = JNumber 0"
      then show "insight_confidence (insights ! i) = JNumber 0.8"
        using y by (simp add: fills_falsy_def)
    next
      assume "property (elements ! i) ''type'' = JString []"
      then show "insight_type (insights ! i) = JString ''info''"
        using y by (simp add: fills_falsy_def)
    next
      assume "property (elements ! i) ''title'' = JString []"
      then show "insight_title (insights ! i) = JString ''AI Insight''"
        using y by (simp add: fills_falsy_def)
    next
      assume "property (elements ! i) ''message'' = JString []"
      then show "insight_message (insights ! i) = JString ''Analysis complete''"
        using y by (simp add: fills_falsy_def)
    }
  qed
  show "\<exists>insights. generateExpenseInsights create JSON_parse Date_now expenses = Inr insights
        \<and> length insights = length elements
        \<and> (\<forall>i < length elements.
              fills_falsy (elements ! i) (insights ! i)
              \<and> (property (elements ! i) ''confidence'' = JNumber 0
                   \<longrightarrow> insight_confidence (insights ! i) = JNumber 0.8)
              \<and> (property (elements ! i) ''type'' = JString []
                   \<longrightarrow> insight_type (insights ! i) = JString ''info'')
              \<and> (property (elements ! i) ''title'' = JString []
                   \<longrightarrow> insight_title (insights ! i) = JString ''AI Insight'')
              \<and> (property (elements ! i) ''message'' = JString []
                   \<longrightarrow> insight_message (insights ! i) = JString ''Analysis complete''))"
    by (rule exI [of _ insights]) (intro conjI g l q)
next
  assume "create (InsightsRequest (expensesSummary expenses)) = Resolved (Some response # rest)
     \<and> response \<noteq> [] \<and> JSON_parse (cleanedResponse response) = Some (JArray elements)
     \<and> (\<exists>e \<in> set elements. nullish e)"
  then show "\<exists>insight. generateExpenseInsights create JSON_parse Date_now expenses = Inr [insight]
        \<and> insight_id insight = ''fallback-1''
        \<and> insight_type insight = JString ''info''
        \<and> insight_confidence insight = JNumber 0.5"
    by (rule insights_null_fallback)
next
  show "\<forall>kvs key v. map_of kvs key = Some v \<longrightarrow> property (JObject kvs) key = v"
    by simp
qed

theorem falsy_fields_defaulted_witness:
  "(\<exists>insights.
     generateExpenseInsights (resolves [Some falsyPayload]) (parses falsyPayload falsyParsed) ticking []
       = Inr insights
     \<and> length insights = 1
     \<and> insight_type (insights ! 0) = JString ''info''
     \<and> insight_title (insights ! 0) = JString ''AI Insight''
     \<and> insight_message (insights ! 0) = JString ''Analysis complete''
     \<and> insight_confidence (insights ! 0) = JNumber 0.8)
   \<and> (\<exists>insight.
     generateExpenseInsights (resolves [Some zeroNullPayload])
         (parses zeroNullPayload zeroNullParsed) ticking []
       = Inr [insight]
     \<and> insight_id insight = ''fallback-1''
     \<and> insight_type insight = JString ''info''
     \<and> insight_confidence insight = JNumber 0.5)"
proof -
  let ?e = "JObject [(''type'', JString []), (''title'', JString []), (''message'', JString []),
                     (''confidence'', JNumber 0)]"
  let ?p = "parses falsyPayload falsyParsed"
  have h: "resolves [Some falsyPayload] (InsightsRequest (expensesSummary []))
        = Resolved (Some falsyPayload # [])
     \<and> falsyPayload \<noteq> [] \<and> ?p (cleanedResponse falsyPayload) = Some (JArray [?e])
     \<and> (\<forall>e \<in> set [?e]. \<not> nullish e)"
    using arrayPayload_not_empty [OF falsyPayload_array]
    by (simp add: resolves_def cleaned_payload falsyPayload_array parses_def falsyParsed_def
          nullish_def)
  note t = falsy_fields_defaulted
    [where create = "resolves [Some falsyPayload]" and expenses = "[]" and response = falsyPayload
       and rest = "[]" and JSON_parse = ?p and elements = "[?e]" and Date_now = ticking,
     THEN conjunct1, THEN mp, OF h]
  then obtain insights
    where g: "generateExpenseInsights (resolves [Some falsyPayload]) ?p ticking [] = Inr insights"
      and l: "length insights = length [?e]"
      and q: "\<forall>i < length [?e].
              fills_falsy ([?e] ! i) (insights ! i)
              \<and> (property ([?e] ! i) ''confidence'' = JNumber 0
                   \<longrightarrow> insight_confidence (insights ! i) = JNumber 0.8)
              \<and> (property ([?e] ! i) ''type'' = JString []
                   \<longrightarrow> insight_type (insights ! i) = JString ''info'')
              \<and> (property ([?e] ! i) ''title'' = JString []
                   \<longrightarrow> insight_title (insights ! i) = JString ''AI Insight'')
              \<and> (property ([?e] ! i) ''message'' = JString []
                   \<longrightarrow> insight_message (insights ! i) = JString ''Analysis complete'')"
    by (elim exE conjE)
  from q have "insight_confidence (insights ! 0) = JNumber 0.8"
    and "insight_type (insights ! 0) = JString ''info''"
    and "insight_title (insights ! 0) = JString ''AI Insight''"
    and "insight_message (insights ! 0) = JString ''Analysis complete''"
    by simp_all
  moreover from l have "length insights = 1" by simp
  ultimately have a: "\<exists>insights.
     generateExpenseInsights (resolves [Some falsyPayload]) ?p ticking [] = Inr insights
     \<and> length insights = 1
     \<and> insight_type (insights ! 0) = JString ''info''
     \<and> insight_title (insights ! 0) = JString ''AI Insight''
     \<and> insight_message (insights ! 0) = JString ''Analysis complete''
     \<and> insight_confidence (insights ! 0) = JNumber 0.8"
    using g by blast
  let ?z = "JObject [(''confidence'', JNumber 0)]"
  let ?n = "parses zeroNullPayload zeroNullParsed"
  have n: "resolves [Some zeroNullPayload] (InsightsRequest (expensesSummary []))
        = Resolved (Some zeroNullPayload # [])
     \<and> zeroNullPayload \<noteq> [] \<and> ?n (cleanedResponse zeroNullPayload) = Some (JArray [?z, JNull])
     \<and> (\<exists>e \<in> set [?z, JNull]. nullish e)"
    using arrayPayload_not_empty [OF zeroNullPayload_array]
    by (simp add: resolves_def cleaned_payload zeroNullPayload_array parses_def zeroNullParsed_def
          nullish_def)
  note b = falsy_fields_defaulted
    [where create = "resolves [Some zeroNullPayload]" and expenses = "[]"
       and response = zeroNullPayload and rest = "[]" and JSON_parse = ?n
       and elements = "[?z, JNull]" and Date_now = ticking,
     THEN conjunct2, THEN conjunct1, THEN mp, OF n]
  from a b show ?thesis by (rule conjI)
qed

text \<open>
  Claim C9 as the specification states it fails: the response \<^verbatim>\<open>[{"confidence":0},null]\<close>
  parses to an array whose first element has a \<^verbatim>\<open>confidence\<close> that is present and 0,
  and no insight of confidence 0.8 is returned for it: the result is the one insight
  \<^verbatim>\<open>fallback-1\<close> of confidence 0.5.
\<close>

theorem zero_confidence_counterexample:
  "parses zeroNullPayload zeroNullParsed (cleanedResponse zeroNullPayload)
       = Some (JArray [JObject [(''confidence'', JNumber 0)], JNull])
   \<and> property (JObject [(''confidence'', JNumber 0)]) ''confidence'' = JNumber 0
   \<and> generateExpenseInsights (resolves [Some zeroNullPayload])
         (parses zeroNullPayload zeroNullParsed) ticking []
       = Inr [\<lparr> insight_id = ''fallback-1'',
                  insight_type = JString ''info'',
                  insight_title = JString ''AI Analysis Unavailable'',
                  insight_message = JString ''Unable to generate personalized insights at this time. Please try again later.'',
                  insight_action = JString ''Refresh insights'',
                  insight_confidence = JNumber 0.5 \<rparr>]
   \<and> map_sum id (map insight_confidence)
         (generateExpenseInsights (resolves [Some zeroNullPayload])
            (parses zeroNullPayload zeroNullParsed) ticking [])
       = Inr [JNumber 0.5]"
proof -
  have p: "parses zeroNullPayload zeroNullParsed (cleanedResponse zeroNullPayload)
      = Some (JArray [JObject [(''confidence'', JNumber 0)], JNull])"
    by (simp add: cleaned_payload zeroNullPayload_array parses_def zeroNullParsed_def)
  have r: "resolves [Some zeroNullPayload] (InsightsRequest (expensesSummary []))
      = Resolved (Some zeroNullPayload # [])"
    by (simp add: resolves_def)
  have "generateExpenseInsights (resolves [Some zeroNullPayload])
          (parses zeroNullPayload zeroNullParsed) ticking []
      = generateExpenseInsights_catch TypeError"
    using r arrayPayload_not_empty [OF zeroNullPayload_array] p
    by (rule insights_null_element [where e = JNull]) (simp_all add: nullish_def)
  then have g: "generateExpenseInsights (resolves [Some zeroNullPayload])
          (parses zeroNullPayload zeroNullParsed) ticking []
       = Inr [\<lparr> insight_id = ''fallback-1'',
                  insight_type = JString ''info'',
                  insight_title = JString ''AI Analysis Unavailable'',
                  insight_message = JString ''Unable to generate personalized insights at this time. Please try again later.'',
                  insight_action = JString ''Refresh insights'',
                  insight_confidence = JNumber 0.5 \<rparr>]"
    by (simp only: insights_catch_TypeError)
  from p g show ?thesis by simp
qed

section \<open>Two runs of generateExpenseInsights\<close>

text \<open>
  A fenced response with one insight that has neither \<^verbatim>\<open>message\<close>, \<^verbatim>\<open>action\<close> nor
  \<^verbatim>\<open>confidence\<close>, read at the clock \<open>ticking\<close>; and a response whose array holds
  \<^verbatim>\<open>null\<close>, on which the callback throws.
\<close>

lemma tip_cleaned: "cleanedResponse (fenced ''json'' [CHR 0x0A] tipPayload [CHR 0x0A]) = tipPayload"
  by code_simp

lemma tip_example:
  "generateExpenseInsights (resolves [Some (fenced ''json'' [CHR 0x0A] tipPayload [CHR 0x0A])])
     (parses tipPayload tipParsed) ticking []
   = Inr [\<lparr> insight_id = ''ai-1700000000000-0'', insight_type = JString ''tip'',
              insight_title = JString ''Cook at home'',
              insight_message = JString ''Analysis complete'',
              insight_action = JUndefined, insight_confidence = JNumber 0.8 \<rparr>]"
  by (simp add: generateExpenseInsights_def generateExpenseInsights_try_def try_catch_def
        resolves_def await_content_def first_content_def tip_cleaned parseInsights_def
        parses_def tipParsed_def formatInsight_def nullish_def or_else_def ticking_def
        toString_def decimal.simps digit_def fenced_ends)

lemma null_example:
  "\<exists>insight. generateExpenseInsights (resolves [Some tipPayload])
     (parses tipPayload (JArray [JObject [], JNull])) ticking [] = Inr [insight]
     \<and> insight_id insight = ''fallback-1''"
  by (simp add: generateExpenseInsights_def generateExpenseInsights_try_def try_catch_def
        resolves_def await_content_def first_content_def cleaned_payload tipPayload_array
        arrayPayload_not_empty parseInsights_def
        parses_def formatInsight_def nullish_def TypeError_def
        generateExpenseInsights_catch_def isRateLimit_def optional_property_def)

end
